theory Spec2Isabelle
  imports Complex_Main "HOL-Library.AList"
begin

section \<open>Values and collaborators\<close>

text \<open>
  What \<^verbatim>\<open>json.loads\<close> returns: \<^verbatim>\<open>None\<close>, a bool, a number, a str, a list or a
  dict. A dict is an association list in insertion order with distinct keys, read with
  \<^const>\<open>map_of\<close> and written with \<^const>\<open>AList.update\<close>. Numbers are held exactly; the
  rounding of Python floats is not modelled and no statement below depends on it.
\<close>

datatype json =
    JNull
  | JBool bool
  | JNum rat
  | JStr string
  | JArray "json list"
  | JObject "(string \<times> json) list"

text \<open>The exceptions the modelled code can raise.\<close>

datatype exn = TypeError | AttributeError | KeyError | ValueError | OSError

text \<open>One data row of the workbook: the seven cell values and whether the status cell
  gets the yellow fill.\<close>

type_synonym row = "json list \<times> bool"

text \<open>
  The libraries and services the code calls, taken as parameters. \<open>'i\<close> is the type of
  an image; file contents and texts are 8-bit strings.
  \<^item> \<open>json_loads\<close>: \<^verbatim>\<open>json.loads\<close>; \<open>None\<close> when it raises \<^verbatim>\<open>JSONDecodeError\<close> (what
    it raises on a text that is not JSON; running out of interpreter stack on a very
    deeply nested text is not modelled).
  \<^item> \<open>messages_create\<close>: everything between the start of the batch's \<^verbatim>\<open>try\<close> and
    \<^verbatim>\<open>response_text\<close>, as a function of what the request is built from (file name,
    batch number \<^verbatim>\<open>i//batch_size + 1\<close>, the batch): JPEG/base64 encoding,
    \<^verbatim>\<open>claude_client.messages.create\<close> and \<^verbatim>\<open>response.content[0].text.strip()\<close>.
    \<open>Some t\<close> is the stripped text, \<open>None\<close> means one of these raised.
  \<^item> \<open>write_temp\<close>: the temporary file could be created and written.
  \<^item> \<open>extract_images_from_docx\<close>: the images found in the stored document (the source
    function catches every exception and returns a list).
  \<^item> \<open>unlink\<close>: \<^verbatim>\<open>os.unlink(temp_path)\<close> returned without raising.
  \<^item> \<open>cell_accepts\<close>: openpyxl accepts the value for a cell.
  \<^item> \<open>wb_save\<close>: \<^verbatim>\<open>wb.save(output)\<close> returned without raising.
\<close>

record 'i world =
  json_loads :: "string \<Rightarrow> json option"
  messages_create :: "string \<Rightarrow> nat \<Rightarrow> 'i list \<Rightarrow> string option"
  write_temp :: "string \<Rightarrow> bool"
  extract_images_from_docx :: "string \<Rightarrow> 'i list"
  unlink :: "string \<Rightarrow> bool"
  cell_accepts :: "json \<Rightarrow> bool"
  wb_save :: "row list \<Rightarrow> bool"

section \<open>Batch extraction engine: partitioning the images\<close>

text \<open>
  \<^verbatim>\<open>for i in range(0, len(images), batch_size)\<close>: the values of Python's
  \<^verbatim>\<open>range(start, stop, step)\<close> for a non-negative start and a positive step
  (a zero step raises in Python and is never passed here: \<^verbatim>\<open>batch_size = 4\<close>).
\<close>

function py_range :: "nat \<Rightarrow> nat \<Rightarrow> nat \<Rightarrow> nat list" where
  "py_range i stop step =
     (if step = 0 \<or> stop \<le> i then [] else i # py_range (i + step) stop step)"
  by pat_completeness auto
termination
  by (relation "measure (\<lambda>(i, stop, step). stop - i)") auto

declare py_range.simps [simp del]

text \<open>\<^verbatim>\<open>xs[i:j]\<close> for \<open>0 \<le> i \<le> j\<close>: Python clamps both ends to the list.\<close>

definition slice :: "'a list \<Rightarrow> nat \<Rightarrow> nat \<Rightarrow> 'a list" where
  "slice xs i j = take (j - i) (drop i xs)"

definition batch_size :: nat where
  "batch_size = 4"


section \<open>Batch extraction engine: one batch, all batches\<close>

text \<open>
  \<^verbatim>\<open>re.search(r'\[.*?\]', response_text, re.DOTALL)\<close>, the matched text if any. The
  leftmost match starts at the first \<open>[\<close> that has a \<open>]\<close> after it, which is the
  first \<open>[\<close> of the text if any \<open>[\<close> has one; the lazy \<open>.*?\<close> stops at the first
  \<open>]\<close> after it.
\<close>

definition re_search_array :: "string \<Rightarrow> string option" where
  "re_search_array text =
     (case dropWhile (\<lambda>c. c \<noteq> CHR ''['') text of
        [] \<Rightarrow> None
      | c # rest \<Rightarrow>
          if CHR '']'' \<in> set rest
          then Some (c # takeWhile (\<lambda>c. c \<noteq> CHR '']'') rest @ '']'')
          else None)"

text \<open>
  The body of the loop for the batch starting at \<open>i\<close>: the accumulator \<open>all_entries\<close>
  after it. Every branch that logs and continues returns the accumulator as it was.
\<close>

definition batch_body :: "'i world \<Rightarrow> 'i list \<Rightarrow> string \<Rightarrow> json list \<Rightarrow> nat \<Rightarrow> json list" where
  "batch_body w images filename all_entries i =
     (let batch = slice images i (i + batch_size) in
      case messages_create w filename (i div batch_size + 1) batch of
        None \<Rightarrow> all_entries
      | Some response_text \<Rightarrow>
          (case json_loads w response_text of
             Some (JArray batch_entries) \<Rightarrow> all_entries @ batch_entries
           | Some _ \<Rightarrow> all_entries
           | None \<Rightarrow>
               (case re_search_array response_text of
                  None \<Rightarrow> all_entries
                | Some json_match \<Rightarrow>
                    (case json_loads w json_match of
                       Some (JArray batch_entries) \<Rightarrow> all_entries @ batch_entries
                     | Some _ \<Rightarrow> all_entries
                     | None \<Rightarrow> all_entries))))"

definition process_images_in_batches :: "'i world \<Rightarrow> 'i list \<Rightarrow> string \<Rightarrow> json list" where
  "process_images_in_batches w images filename =
     foldl (batch_body w images filename) [] (py_range 0 (length images) batch_size)"

text \<open>\<^verbatim>\<open>entry['source_file'] = filename\<close>: item assignment with a string key works on a
  dict and raises \<^verbatim>\<open>TypeError\<close> on every other value \<^verbatim>\<open>json.loads\<close> can return.\<close>

fun set_source_file :: "string \<Rightarrow> json \<Rightarrow> exn + json" where
  "set_source_file filename (JObject kv) =
     Inr (JObject (AList.update ''source_file'' (JStr filename) kv))"
| "set_source_file filename _ = Inl TypeError"

text \<open>A \<^verbatim>\<open>for\<close> loop whose body may raise: it stops at the first exception.\<close>

fun for_each :: "('a \<Rightarrow> exn + 'b) \<Rightarrow> 'a list \<Rightarrow> exn + 'b list" where
  "for_each f [] = Inr []"
| "for_each f (x # xs) =
     (case f x of
        Inl e \<Rightarrow> Inl e
      | Inr y \<Rightarrow> (case for_each f xs of Inl e \<Rightarrow> Inl e | Inr ys \<Rightarrow> Inr (y # ys)))"

definition extract_timesheet_data_with_claude ::
    "'i world \<Rightarrow> 'i list \<Rightarrow> string \<Rightarrow> exn + json list" where
  "extract_timesheet_data_with_claude w images filename =
     (if images = [] then Inr []
      else for_each (set_source_file filename) (process_images_in_batches w images filename))"

section \<open>Shared state\<close>

text \<open>One entry of \<^verbatim>\<open>processing_status\<close>. The environment metadata written at
  creation is constant and left out.\<close>

datatype job_state = Processing | Completed | Error

record job =
  job_status :: job_state
  job_total :: nat
  job_processed :: nat
  job_current_file :: string
  job_total_entries :: nat
  job_error :: "exn option"

record metrics =
  total_documents :: nat
  total_hours :: rat
  total_entries :: nat
  total_images :: nat

text \<open>The three module-level dictionaries.\<close>

record state =
  processing_results :: "string \<rightharpoonup> json list"
  processing_status :: "string \<rightharpoonup> job"
  dashboard_metrics :: metrics

definition initial_state :: state where
  "initial_state =
     \<lparr>processing_results = Map.empty, processing_status = Map.empty,
      dashboard_metrics = \<lparr>total_documents = 0, total_hours = 0, total_entries = 0, total_images = 0\<rparr>\<rparr>"

section \<open>File extraction worker\<close>

text \<open>
  The body of the outer \<^verbatim>\<open>try\<close> of \<^verbatim>\<open>process_single_file\<close>: what it returns or
  raises, and the state it leaves. A missing job record raises \<^verbatim>\<open>KeyError\<close> at the first
  status update. The inner \<^verbatim>\<open>finally\<close> runs \<^verbatim>\<open>os.unlink\<close> on every path after the
  temporary file exists; when that raises, its exception replaces the result.
\<close>

definition process_single_file_try ::
    "'i world \<Rightarrow> string \<times> string \<Rightarrow> string \<Rightarrow> state \<Rightarrow> (exn + json list) \<times> state" where
  "process_single_file_try w file_data job_id s =
     (let (filename, file_content) = file_data in
      case processing_status s job_id of
        None \<Rightarrow> (Inl KeyError, s)
      | Some j \<Rightarrow>
          let s1 = s\<lparr>processing_status := (processing_status s)(job_id \<mapsto>
                       j\<lparr>job_current_file := filename, job_processed := job_processed j + 1\<rparr>)\<rparr> in
          if \<not> write_temp w file_content then (Inl OSError, s1)
          else
            let images = extract_images_from_docx w file_content in
            if images = [] then
              (if unlink w file_content then (Inr [], s1) else (Inl OSError, s1))
            else
              (case extract_timesheet_data_with_claude w images filename of
                 Inl e \<Rightarrow> (if unlink w file_content then (Inl e, s1) else (Inl OSError, s1))
               | Inr data \<Rightarrow>
                   let m = dashboard_metrics s1;
                       s2 = s1\<lparr>dashboard_metrics := m\<lparr>total_images := total_images m + length images\<rparr>\<rparr>
                   in if unlink w file_content then (Inr data, s2) else (Inl OSError, s2)))"

text \<open>\<^verbatim>\<open>except Exception as e: ... return []\<close>. The result keeps the type of a call
  that may raise, as the job loop wraps the call in a \<^verbatim>\<open>try\<close> of its own; that it never
  raises is proved below.\<close>

definition process_single_file ::
    "'i world \<Rightarrow> string \<times> string \<Rightarrow> string \<Rightarrow> state \<Rightarrow> (exn + json list) \<times> state" where
  "process_single_file w file_data job_id s =
     (case process_single_file_try w file_data job_id s of
        (Inl e, s') \<Rightarrow> (Inr [], s')
      | (Inr data, s') \<Rightarrow> (Inr data, s'))"

section \<open>Job orchestrator\<close>

text \<open>The \<^verbatim>\<open>for file_data in files\<close> loop of \<^verbatim>\<open>process_files_bulk\<close>, with its
  \<^verbatim>\<open>except Exception: continue\<close>. The one-second sleep is left out.\<close>

definition file_step ::
    "'i world \<Rightarrow> string \<Rightarrow> string \<times> string \<Rightarrow> json list \<times> state \<Rightarrow> json list \<times> state" where
  "file_step w job_id file_data acc =
     (let (all_data, s) = acc in
      case process_single_file w file_data job_id s of
        (Inr result, s') \<Rightarrow> (all_data @ result, s')
      | (Inl e, s') \<Rightarrow> (all_data, s'))"

fun files_loop ::
    "'i world \<Rightarrow> string \<Rightarrow> (string \<times> string) list \<Rightarrow> json list \<times> state \<Rightarrow> json list \<times> state" where
  "files_loop w job_id [] acc = acc"
| "files_loop w job_id (file_data # files) acc =
     files_loop w job_id files (file_step w job_id file_data acc)"

text \<open>\<^verbatim>\<open>entry.get(key, default)\<close>: a dict method; any other value has no \<^verbatim>\<open>get\<close>.\<close>

definition entry_get :: "json \<Rightarrow> string \<Rightarrow> json \<Rightarrow> exn + json" where
  "entry_get entry key dflt =
     (case entry of
        JObject kv \<Rightarrow> Inr (case map_of kv key of None \<Rightarrow> dflt | Some v \<Rightarrow> v)
      | _ \<Rightarrow> Inl AttributeError)"

text \<open>\<^verbatim>\<open>total += v\<close> for a number \<open>total\<close>: defined for numbers and bools
  (\<^verbatim>\<open>True\<close> counts 1), \<^verbatim>\<open>TypeError\<close> for \<^verbatim>\<open>None\<close>, str, list and dict.\<close>

definition add_number :: "rat \<Rightarrow> json \<Rightarrow> exn + rat" where
  "add_number t v =
     (case v of
        JNum r \<Rightarrow> Inr (t + r)
      | JBool b \<Rightarrow> Inr (t + (if b then 1 else 0))
      | _ \<Rightarrow> Inl TypeError)"

text \<open>The hours loop: the running total and the exception that stopped it, if any. The
  additions made before an exception stay.\<close>

fun sum_hours :: "rat \<Rightarrow> json list \<Rightarrow> rat \<times> exn option" where
  "sum_hours t [] = (t, None)"
| "sum_hours t (entry # rest) =
     (case entry_get entry ''hours'' (JNum 0) of
        Inl e \<Rightarrow> (t, Some e)
      | Inr v \<Rightarrow>
          (case add_number t v of
             Inl e \<Rightarrow> (t, Some e)
           | Inr t' \<Rightarrow> sum_hours t' rest))"

text \<open>The handler \<^verbatim>\<open>except Exception as e\<close> of \<^verbatim>\<open>process_files_bulk\<close>. With no job
  record its first statement raises \<^verbatim>\<open>KeyError\<close> out of the thread and nothing changes.\<close>

definition mark_error :: "string \<Rightarrow> exn \<Rightarrow> state \<Rightarrow> state" where
  "mark_error job_id e s =
     (case processing_status s job_id of
        None \<Rightarrow> s
      | Some j \<Rightarrow>
          s\<lparr>processing_status := (processing_status s)(job_id \<mapsto>
                j\<lparr>job_status := Error, job_error := Some e\<rparr>)\<rparr>)"

text \<open>\<^verbatim>\<open>process_files_bulk\<close> after the loop: metrics, hours, result, status.\<close>

definition finish_bulk :: "(string \<times> string) list \<Rightarrow> string \<Rightarrow> json list \<Rightarrow> state \<Rightarrow> state" where
  "finish_bulk files job_id all_data s =
     (let m = dashboard_metrics s;
          m1 = m\<lparr>total_documents := total_documents m + length files,
                 total_entries := total_entries m + length all_data\<rparr>;
          (h, raised) = sum_hours (total_hours m1) all_data;
          s1 = s\<lparr>dashboard_metrics := m1\<lparr>total_hours := h\<rparr>\<rparr>
      in case raised of
           Some e \<Rightarrow> mark_error job_id e s1
         | None \<Rightarrow>
             let s2 = s1\<lparr>processing_results := (processing_results s1)(job_id \<mapsto> all_data)\<rparr> in
             (case processing_status s2 job_id of
                None \<Rightarrow> mark_error job_id KeyError s2
              | Some j \<Rightarrow>
                  s2\<lparr>processing_status := (processing_status s2)(job_id \<mapsto>
                        j\<lparr>job_status := Completed, job_total_entries := length all_data\<rparr>)\<rparr>))"

definition process_files_bulk :: "'i world \<Rightarrow> (string \<times> string) list \<Rightarrow> string \<Rightarrow> state \<Rightarrow> state" where
  "process_files_bulk w files job_id s =
     (let (all_data, s') = files_loop w job_id files ([], s) in finish_bulk files job_id all_data s')"

section \<open>Request handlers\<close>

text \<open>\<^verbatim>\<open>str.lower()\<close> on 8-bit text read as code points below 256, and
  \<^verbatim>\<open>str.endswith\<close>.\<close>

definition lower_char :: "char \<Rightarrow> char" where
  "lower_char c =
     (let n = (of_char c :: nat) in
      if (65 \<le> n \<and> n \<le> 90) \<or> (192 \<le> n \<and> n \<le> 222 \<and> n \<noteq> 215) then char_of (n + 32) else c)"

definition lower :: "string \<Rightarrow> string" where
  "lower str = map lower_char str"

definition endswith :: "string \<Rightarrow> string \<Rightarrow> bool" where
  "endswith str suffix =
     (length suffix \<le> length str \<and> drop (length str - length suffix) str = suffix)"

text \<open>
  \<^verbatim>\<open>process_bulk\<close> for the uploaded (file name, content) pairs and the id
  \<^verbatim>\<open>uuid.uuid4()\<close> returned: a rejection (HTTP code and message), or the accepted
  \<^verbatim>\<open>file_data\<close> that is handed to the background thread.
\<close>

definition process_bulk ::
    "string \<Rightarrow> (string \<times> string) list \<Rightarrow> state \<Rightarrow> (nat \<times> string + (string \<times> string) list) \<times> state" where
  "process_bulk job_id files s =
     (if files = [] then (Inl (400, ''No files provided''), s)
      else
        let file_data = filter (\<lambda>(filename, file_content).
              endswith (lower filename) ''.docx'' \<or> endswith (lower filename) ''.doc'') files in
        if file_data = [] then (Inl (400, ''No valid DOCX files found''), s)
        else
          (Inr file_data,
           s\<lparr>processing_status := (processing_status s)(job_id \<mapsto>
                \<lparr>job_status = Processing, job_total = length file_data, job_processed = 0,
                 job_current_file = [], job_total_entries = 0, job_error = None\<rparr>)\<rparr>))"

text \<open>\<^verbatim>\<open>get_status\<close>: the job record (the added timestamp is left out) or 404.\<close>

definition get_status :: "string \<Rightarrow> state \<Rightarrow> nat \<times> string + job" where
  "get_status job_id s =
     (case processing_status s job_id of
        None \<Rightarrow> Inl (404, ''Job not found'')
      | Some j \<Rightarrow> Inr j)"

text \<open>
  One data row of \<^verbatim>\<open>create_excel_file\<close>: seven \<^verbatim>\<open>entry.get\<close> calls, each value
  written to a cell, then \<^verbatim>\<open>entry.get('submission_status', '').lower() == 'closed'\<close>,
  where \<^verbatim>\<open>lower\<close> exists on a str only.
\<close>

definition excel_row :: "(json \<Rightarrow> bool) \<Rightarrow> json \<Rightarrow> exn + row" where
  "excel_row accepts entry =
     (case for_each (\<lambda>(key, dflt). entry_get entry key dflt)
             [(''employee_name'', JStr ''Unknown''), (''date'', JStr []), (''hours'', JNum 0),
              (''submission_status'', JStr ''pending''), (''week'', JStr []),
              (''total_hours'', JNum 0), (''source_file'', JStr [])] of
        Inl e \<Rightarrow> Inl e
      | Inr cells \<Rightarrow>
          if \<not> list_all accepts cells then Inl ValueError
          else
            (case entry_get entry ''submission_status'' (JStr []) of
               Inl e \<Rightarrow> Inl e
             | Inr (JStr status) \<Rightarrow> Inr (cells, lower status = ''closed'')
             | Inr _ \<Rightarrow> Inl AttributeError))"

definition create_excel_file :: "'i world \<Rightarrow> json list \<Rightarrow> exn + row list" where
  "create_excel_file w data = for_each (excel_row (cell_accepts w)) data"

text \<open>
  \<^verbatim>\<open>download_result\<close>: the spreadsheet, a rejection with its HTTP code and message, or
  the 500 answer of the handler's \<^verbatim>\<open>except Exception\<close> (its message is the exception's
  text).
\<close>

datatype response = Spreadsheet "row list" | Rejected nat string | ServerError exn

definition download_result :: "'i world \<Rightarrow> string \<Rightarrow> state \<Rightarrow> response \<times> state" where
  "download_result w job_id s =
     (case processing_results s job_id of
        None \<Rightarrow> (Rejected 404 ''Results not found'', s)
      | Some data \<Rightarrow>
          if data = [] then (Rejected 400 ''No data extracted'', s)
          else
            (case create_excel_file w data of
               Inl e \<Rightarrow> (ServerError e, s)
             | Inr wb \<Rightarrow>
                 if \<not> wb_save w wb then (ServerError OSError, s)
                 else
                   let s1 = s\<lparr>processing_results := (processing_results s)(job_id := None)\<rparr> in
                   (case processing_status s1 job_id of
                      None \<Rightarrow> (ServerError KeyError, s1)
                    | Some j \<Rightarrow>
                        (Spreadsheet wb,
                         s1\<lparr>processing_status := (processing_status s1)(job_id := None)\<rparr>))))"

section \<open>The running system\<close>

text \<open>
  The background thread of one job: the \<^verbatim>\<open>files\<close> it was started with, the files its
  loop has not reached yet, and its \<^verbatim>\<open>all_data\<close>.
\<close>

record thread =
  thread_files :: "(string \<times> string) list"
  thread_todo :: "(string \<times> string) list"
  thread_all_data :: "json list"

record system =
  globals :: state
  threads :: "string \<rightharpoonup> thread"

definition initial_system :: system where
  "initial_system = \<lparr>globals = initial_state, threads = Map.empty\<rparr>"

text \<open>
  What can happen, one event at a time. A handler call, one file of a thread, and a
  thread's code after its loop are each taken as one step; between two steps every
  interleaving of threads and requests is allowed. Each step brings its own behaviour of
  the outside world.
  \<^item> \<open>Submit\<close>: a bulk request. \<^verbatim>\<open>uuid4\<close> ids are unique: a request whose id is in use
    does not occur.
  \<^item> \<open>Work\<close>: the thread of the job runs its next file, or, when none is left, the
    code after the loop, and ends.
  \<^item> \<open>Download\<close>: a download request.
  A status poll reads \<open>get_status\<close> in the state between two steps.
\<close>

datatype 'i event =
    Submit string "(string \<times> string) list"
  | Work string "'i world"
  | Download string "'i world"

fun fire :: "system \<Rightarrow> 'i event \<Rightarrow> system" where
  "fire \<sigma> (Submit job_id uploads) =
     (if processing_status (globals \<sigma>) job_id \<noteq> None \<or> threads \<sigma> job_id \<noteq> None then \<sigma>
      else
        (case process_bulk job_id uploads (globals \<sigma>) of
           (Inl rejection, s') \<Rightarrow> \<sigma>\<lparr>globals := s'\<rparr>
         | (Inr file_data, s') \<Rightarrow>
             \<sigma>\<lparr>globals := s',
               threads := (threads \<sigma>)(job_id \<mapsto>
                 \<lparr>thread_files = file_data, thread_todo = file_data, thread_all_data = []\<rparr>)\<rparr>))"
| "fire \<sigma> (Work job_id w) =
     (case threads \<sigma> job_id of
        None \<Rightarrow> \<sigma>
      | Some t \<Rightarrow>
          (case thread_todo t of
             [] \<Rightarrow>
               \<sigma>\<lparr>globals := finish_bulk (thread_files t) job_id (thread_all_data t) (globals \<sigma>),
                 threads := (threads \<sigma>)(job_id := None)\<rparr>
           | file_data # rest \<Rightarrow>
               (case file_step w job_id file_data (thread_all_data t, globals \<sigma>) of
                  (all_data, s') \<Rightarrow>
                    \<sigma>\<lparr>globals := s',
                      threads := (threads \<sigma>)(job_id \<mapsto>
                        t\<lparr>thread_todo := rest, thread_all_data := all_data\<rparr>)\<rparr>)))"
| "fire \<sigma> (Download job_id w) = \<sigma>\<lparr>globals := snd (download_result w job_id (globals \<sigma>))\<rparr>"

definition run :: "'i event list \<Rightarrow> system" where
  "run events = foldl fire initial_system events"

section \<open>A decoder for the scenarios\<close>

text \<open>
  The statements about all responses are proved for every \<open>json_loads\<close>. To run the
  code on a concrete response text a decoder is needed: \<open>loads\<close> below accepts JSON as
  \<^verbatim>\<open>json.loads\<close> does on 8-bit text (whitespace is space, tab, line feed and carriage
  return; strings have no raw control characters and the escapes
  \<^verbatim>\<open>\" \\ \/ \b \f \n \r \t \uXXXX\<close>; numbers follow the JSON grammar; a repeated key
  keeps its first position and its last value). Outside it: the constants
  \<^verbatim>\<open>NaN\<close> and \<^verbatim>\<open>Infinity\<close> that Python also accepts, and \<^verbatim>\<open>\u\<close> escapes of a
  code point above 255; both are rejected here, and no text used below has them.
  The text is cut into tokens by a scan from left to right, and the tokens are read
  with a stack of the arrays and objects that are open.
\<close>

datatype token =
    TLBracket | TRBracket | TLBrace | TRBrace | TComma | TColon
  | TString string
  | TBare string

datatype lex_mode =
    Idle
  | InBare string
  | InString string
  | InEscape string
  | InUnicode string nat nat

definition is_ws :: "char \<Rightarrow> bool" where
  "is_ws c = (c = CHR '' '' \<or> c = CHR 0x09 \<or> c = CHR 0x0A \<or> c = CHR 0x0D)"

definition is_digit :: "char \<Rightarrow> bool" where
  "is_digit c = (48 \<le> (of_char c :: nat) \<and> (of_char c :: nat) \<le> 57)"

definition is_alpha :: "char \<Rightarrow> bool" where
  "is_alpha c =
     (let n = (of_char c :: nat) in (65 \<le> n \<and> n \<le> 90) \<or> (97 \<le> n \<and> n \<le> 122))"

text \<open>The characters of numbers and of the words \<^verbatim>\<open>true\<close>, \<^verbatim>\<open>false\<close>, \<^verbatim>\<open>null\<close>. A
  value is never followed directly by one of them, so a maximal run of them is one token.\<close>

definition is_bare :: "char \<Rightarrow> bool" where
  "is_bare c = (is_digit c \<or> is_alpha c \<or> c = CHR ''+'' \<or> c = CHR ''-'' \<or> c = CHR ''.'')"

definition hex_digit :: "char \<Rightarrow> nat option" where
  "hex_digit c =
     (let n = (of_char c :: nat) in
      if 48 \<le> n \<and> n \<le> 57 then Some (n - 48)
      else if 65 \<le> n \<and> n \<le> 70 then Some (n - 55)
      else if 97 \<le> n \<and> n \<le> 102 then Some (n - 87)
      else None)"

text \<open>The first character of a token, outside strings and bare runs.\<close>

definition lex_start :: "char \<Rightarrow> token list \<Rightarrow> (lex_mode \<times> token list) option" where
  "lex_start c acc =
     (if is_ws c then Some (Idle, acc)
      else if c = CHR ''['' then Some (Idle, TLBracket # acc)
      else if c = CHR '']'' then Some (Idle, TRBracket # acc)
      else if c = CHR ''{'' then Some (Idle, TLBrace # acc)
      else if c = CHR ''}'' then Some (Idle, TRBrace # acc)
      else if c = CHR '','' then Some (Idle, TComma # acc)
      else if c = CHR '':'' then Some (Idle, TColon # acc)
      else if c = CHR 0x22 then Some (InString [], acc)
      else if is_bare c then Some (InBare [c], acc)
      else None)"

definition unescape :: "char \<Rightarrow> char option" where
  "unescape c =
     (if c = CHR 0x22 \<or> c = CHR 0x5C \<or> c = CHR ''/'' then Some c
      else if c = CHR ''b'' then Some (CHR 0x08)
      else if c = CHR ''f'' then Some (CHR 0x0C)
      else if c = CHR ''n'' then Some (CHR 0x0A)
      else if c = CHR ''r'' then Some (CHR 0x0D)
      else if c = CHR ''t'' then Some (CHR 0x09)
      else None)"

text \<open>The scan. Accumulators hold characters and tokens in reverse; inside a
  \<^verbatim>\<open>\u\<close> escape the mode counts the hex digits read and holds their value.\<close>

fun lex :: "lex_mode \<Rightarrow> token list \<Rightarrow> string \<Rightarrow> token list option" where
  "lex Idle acc [] = Some (rev acc)"
| "lex (InBare b) acc [] = Some (rev (TBare (rev b) # acc))"
| "lex (InString a) acc [] = None"
| "lex (InEscape a) acc [] = None"
| "lex (InUnicode a k code) acc [] = None"
| "lex Idle acc (c # cs) =
     (case lex_start c acc of None \<Rightarrow> None | Some (mode, acc') \<Rightarrow> lex mode acc' cs)"
| "lex (InBare b) acc (c # cs) =
     (if is_bare c then lex (InBare (c # b)) acc cs
      else
        (case lex_start c (TBare (rev b) # acc) of
           None \<Rightarrow> None
         | Some (mode, acc') \<Rightarrow> lex mode acc' cs))"
| "lex (InString a) acc (c # cs) =
     (if c = CHR 0x22 then lex Idle (TString (rev a) # acc) cs
      else if c = CHR 0x5C then lex (InEscape a) acc cs
      else if (of_char c :: nat) < 32 then None
      else lex (InString (c # a)) acc cs)"
| "lex (InEscape a) acc (c # cs) =
     (if c = CHR ''u'' then lex (InUnicode a 0 0) acc cs
      else
        (case unescape c of
           None \<Rightarrow> None
         | Some c' \<Rightarrow> lex (InString (c' # a)) acc cs))"
| "lex (InUnicode a k code) acc (c # cs) =
     (case hex_digit c of
        None \<Rightarrow> None
      | Some d \<Rightarrow>
          if k < 3 then lex (InUnicode a (k + 1) (16 * code + d)) acc cs
          else if 16 * code + d < 256 then lex (InString (char_of (16 * code + d) # a)) acc cs
          else None)"

text \<open>A number literal: \<^verbatim>\<open>-?(0|[1-9][0-9]*)(\.[0-9]+)?([eE][-+]?[0-9]+)?\<close>, and its value.\<close>

definition digits_value :: "string \<Rightarrow> nat" where
  "digits_value ds = foldl (\<lambda>n c. 10 * n + ((of_char c :: nat) - 48)) 0 ds"

definition number_value :: "string \<Rightarrow> rat option" where
  "number_value lit =
     (let negative = (lit \<noteq> [] \<and> hd lit = CHR ''-'');
          r0 = (if negative then tl lit else lit);
          ip = takeWhile is_digit r0;
          r1 = dropWhile is_digit r0;
          has_frac = (r1 \<noteq> [] \<and> hd r1 = CHR ''.'');
          fp = (if has_frac then takeWhile is_digit (tl r1) else []);
          r2 = (if has_frac then dropWhile is_digit (tl r1) else r1);
          has_exp = (r2 \<noteq> [] \<and> (hd r2 = CHR ''e'' \<or> hd r2 = CHR ''E''));
          r3 = (if has_exp then tl r2 else r2);
          exp_negative = (has_exp \<and> r3 \<noteq> [] \<and> hd r3 = CHR ''-'');
          ed = (if has_exp \<and> r3 \<noteq> [] \<and> (hd r3 = CHR ''-'' \<or> hd r3 = CHR ''+'') then tl r3 else r3)
      in
      if ip = [] \<or> (hd ip = CHR ''0'' \<and> length ip \<noteq> 1) then None
      else if has_frac \<and> fp = [] then None
      else if has_exp \<and> (ed = [] \<or> \<not> list_all is_digit ed) then None
      else if \<not> has_exp \<and> r2 \<noteq> [] then None
      else
        (let mantissa = (of_nat (digits_value (ip @ fp)) :: rat) / 10 ^ length fp;
             scaled = (if \<not> has_exp then mantissa
                       else if exp_negative then mantissa / 10 ^ digits_value ed
                       else mantissa * 10 ^ digits_value ed)
         in Some (if negative then - scaled else scaled)))"

definition bare_value :: "string \<Rightarrow> json option" where
  "bare_value b =
     (if b = ''true'' then Some (JBool True)
      else if b = ''false'' then Some (JBool False)
      else if b = ''null'' then Some JNull
      else map_option JNum (number_value b))"

text \<open>
  Reading the tokens. A frame is an open array with its elements so far (in reverse),
  or an open object with its members so far and the key that waits for its value.
\<close>

datatype frame =
    FArray "json list"
  | FObject "(string \<times> json) list" "string option"

datatype expect =
    AValue
  | AValueOrClose
  | AKey
  | AKeyOrClose
  | AColon
  | ACommaOrClose
  | AtEnd json

text \<open>A complete value goes to the innermost open container, or is the result.\<close>

fun deliver :: "json \<Rightarrow> frame list \<Rightarrow> (expect \<times> frame list) option" where
  "deliver v [] = Some (AtEnd v, [])"
| "deliver v (FArray elems # stack) = Some (ACommaOrClose, FArray (v # elems) # stack)"
| "deliver v (FObject members (Some key) # stack) =
     Some (ACommaOrClose, FObject (AList.update key v members) None # stack)"
| "deliver v (FObject members None # stack) = None"

definition open_value :: "token \<Rightarrow> frame list \<Rightarrow> (expect \<times> frame list) option" where
  "open_value tok stack =
     (case tok of
        TLBracket \<Rightarrow> Some (AValueOrClose, FArray [] # stack)
      | TLBrace \<Rightarrow> Some (AKeyOrClose, FObject [] None # stack)
      | TString str \<Rightarrow> deliver (JStr str) stack
      | TBare b \<Rightarrow> (case bare_value b of None \<Rightarrow> None | Some v \<Rightarrow> deliver v stack)
      | _ \<Rightarrow> None)"

definition close_array :: "frame list \<Rightarrow> (expect \<times> frame list) option" where
  "close_array stack =
     (case stack of
        FArray elems # rest \<Rightarrow> deliver (JArray (rev elems)) rest
      | _ \<Rightarrow> None)"

definition close_object :: "frame list \<Rightarrow> (expect \<times> frame list) option" where
  "close_object stack =
     (case stack of
        FObject members None # rest \<Rightarrow> deliver (JObject members) rest
      | _ \<Rightarrow> None)"

definition take_key :: "token \<Rightarrow> frame list \<Rightarrow> (expect \<times> frame list) option" where
  "take_key tok stack =
     (case (tok, stack) of
        (TString key, FObject members None # rest) \<Rightarrow> Some (AColon, FObject members (Some key) # rest)
      | _ \<Rightarrow> None)"

definition read_token :: "expect \<Rightarrow> frame list \<Rightarrow> token \<Rightarrow> (expect \<times> frame list) option" where
  "read_token ex stack tok =
     (case ex of
        AValue \<Rightarrow> open_value tok stack
      | AValueOrClose \<Rightarrow> (if tok = TRBracket then close_array stack else open_value tok stack)
      | AKey \<Rightarrow> take_key tok stack
      | AKeyOrClose \<Rightarrow> (if tok = TRBrace then close_object stack else take_key tok stack)
      | AColon \<Rightarrow> (if tok = TColon then Some (AValue, stack) else None)
      | ACommaOrClose \<Rightarrow>
          (case stack of
             [] \<Rightarrow> None
           | FArray elems # rest \<Rightarrow>
               if tok = TComma then Some (AValue, stack)
               else if tok = TRBracket then close_array stack
               else None
           | FObject members key # rest \<Rightarrow>
               if tok = TComma then Some (AKey, stack)
               else if tok = TRBrace then close_object stack
               else None)
      | AtEnd v \<Rightarrow> None)"

fun read_tokens :: "expect \<Rightarrow> frame list \<Rightarrow> token list \<Rightarrow> json option" where
  "read_tokens ex stack [] = (case ex of AtEnd v \<Rightarrow> Some v | _ \<Rightarrow> None)"
| "read_tokens ex stack (tok # toks) =
     (case read_token ex stack tok of
        None \<Rightarrow> None
      | Some (ex', stack') \<Rightarrow> read_tokens ex' stack' toks)"

definition loads :: "string \<Rightarrow> json option" where
  "loads text =
     (case lex Idle [] text of
        None \<Rightarrow> None
      | Some toks \<Rightarrow> read_tokens AValue [] toks)"

section \<open>Notions used in the statements\<close>

fun is_dict :: "json \<Rightarrow> bool" where
  "is_dict (JObject kv) = True"
| "is_dict _ = False"

fun is_list :: "json \<Rightarrow> bool" where
  "is_list (JArray elems) = True"
| "is_list _ = False"

text \<open>
  The recovery as the specification words it, for comparison with
  \<^const>\<open>re_search_array\<close>: the first substring that starts with \<open>[\<close> and ends at the
  \<open>]\<close> that balances it. \<open>balanced_end depth cs\<close> is the text up to and including the
  \<open>]\<close> that closes a bracket opened before \<open>cs\<close>, with \<open>depth\<close> further brackets open.
\<close>

fun balanced_end :: "nat \<Rightarrow> string \<Rightarrow> string option" where
  "balanced_end depth [] = None"
| "balanced_end depth (c # cs) =
     (if c = CHR ''['' then map_option (Cons c) (balanced_end (Suc depth) cs)
      else if c = CHR '']'' then
        (case depth of 0 \<Rightarrow> Some [c] | Suc d \<Rightarrow> map_option (Cons c) (balanced_end d cs))
      else map_option (Cons c) (balanced_end depth cs))"

fun spec_first_balanced_array :: "string \<Rightarrow> string option" where
  "spec_first_balanced_array [] = None"
| "spec_first_balanced_array (c # cs) =
     (if c = CHR ''['' then
        (case balanced_end 0 cs of
           Some m \<Rightarrow> Some (c # m)
         | None \<Rightarrow> spec_first_balanced_array cs)
      else spec_first_balanced_array cs)"

text \<open>
  A world for the scenarios: an image is a character and a document's content is the
  string of its images; the decoder is \<^const>\<open>loads\<close>; the file system and the
  spreadsheet library never fail; the inference service is the parameter.
\<close>

definition scenario_world :: "(string \<Rightarrow> nat \<Rightarrow> string \<Rightarrow> string option) \<Rightarrow> char world" where
  "scenario_world service =
     \<lparr>json_loads = loads, messages_create = service, write_temp = (\<lambda>content. True),
      extract_images_from_docx = (\<lambda>content. content), unlink = (\<lambda>content. True),
      cell_accepts = (\<lambda>v. True), wb_save = (\<lambda>rows. True)\<rparr>"

text \<open>The response text of Scenario D.\<close>

definition scenario_d_text :: string where
  "scenario_d_text = ''Here you go: [{\"employee_name\":\"A\",\"date\":\"06/09/2025\",\"hours\":8.0,\"submission_status\":\"Closed\",\"week\":\"W23\",\"total_hours\":40.0}] Thanks.''"

text \<open>Scenario B: the first batch answers with one entry, every later batch with a
  truncated text.\<close>

definition scenario_b_service :: "string \<Rightarrow> nat \<Rightarrow> string \<Rightarrow> string option" where
  "scenario_b_service filename batch_number batch =
     (if batch_number = 1 then Some ''[{\"hours\": 8.0}]'' else Some ''[{\"hours\": 8.0, \"we'')"

text \<open>A response with text around an array whose entry holds an array.\<close>

definition nested_text :: string where
  "nested_text = ''Here you go: [{\"employee_name\":\"A\",\"days\":[1,2]}] Thanks.''"

text \<open>A service whose second batch returns an array with a string in it.\<close>

definition stray_string_service :: "string \<Rightarrow> nat \<Rightarrow> string \<Rightarrow> string option" where
  "stray_string_service filename batch_number batch =
     (if batch_number = 1 then Some ''[{\"hours\": 8.0}]''
      else Some ''[{\"hours\": 4.0}, \"no more rows\"]'')"

text \<open>The spreadsheet of \<open>data\<close> can be built and saved: neither
  \<^verbatim>\<open>create_excel_file(data)\<close> nor \<^verbatim>\<open>wb.save(output)\<close> raises.\<close>

definition renders :: "'i world \<Rightarrow> json list \<Rightarrow> bool" where
  "renders w data = (case create_excel_file w data of Inl e \<Rightarrow> False | Inr wb \<Rightarrow> wb_save w wb)"

text \<open>A service that gives the hours as text, and a job of one one-image document that
  runs against it to its end.\<close>

definition text_hours_service :: "string \<Rightarrow> nat \<Rightarrow> string \<Rightarrow> string option" where
  "text_hours_service filename batch_number batch = Some ''[{\"hours\": \"8\"}]''"

definition error_run :: "char event list" where
  "error_run =
     [Submit ''job'' [(''t.docx'', ''a'')],
      Work ''job'' (scenario_world text_hours_service),
      Work ''job'' (scenario_world text_hours_service)]"

text \<open>A service that leaves the status empty, and a job of one one-image document that
  runs against it to its end.\<close>

definition null_status_service :: "string \<Rightarrow> nat \<Rightarrow> string \<Rightarrow> string option" where
  "null_status_service filename batch_number batch =
     Some ''[{\"hours\": 8.0, \"submission_status\": null}]''"

definition null_status_run :: "char event list" where
  "null_status_run =
     [Submit ''job'' [(''t.docx'', ''a'')],
      Work ''job'' (scenario_world null_status_service),
      Work ''job'' (scenario_world null_status_service)]"

text \<open>Scenario A: two documents with one image each, each answered with one entry.\<close>

definition one_entry_service :: "string \<Rightarrow> nat \<Rightarrow> string \<Rightarrow> string option" where
  "one_entry_service filename batch_number batch =
     Some ''[{\"employee_name\": \"A\", \"hours\": 8.0, \"submission_status\": \"Closed\"}]''"

definition scenario_a_run :: "char event list" where
  "scenario_a_run =
     [Submit ''job'' [(''a.docx'', ''x''), (''notes.txt'', ''y''), (''b.DOC'', ''z'')],
      Work ''job'' (scenario_world one_entry_service),
      Work ''job'' (scenario_world one_entry_service),
      Work ''job'' (scenario_world one_entry_service)]"


text \<open>What holds of every job id between two steps of the running system.\<close>

definition job_inv :: "system \<Rightarrow> string \<Rightarrow> bool" where
  "job_inv \<sigma> job_id =
     (let g = globals \<sigma> in
      case threads \<sigma> job_id of
        Some t \<Rightarrow>
          processing_results g job_id = None \<and>
          (case processing_status g job_id of
             None \<Rightarrow> False
           | Some j \<Rightarrow>
               job_status j = Processing \<and> job_total j = length (thread_files t) \<and>
               job_processed j + length (thread_todo t) = length (thread_files t))
      | None \<Rightarrow>
          (case processing_status g job_id of
             None \<Rightarrow> processing_results g job_id = None
           | Some j \<Rightarrow>
               job_processed j \<le> job_total j \<and>
               (case job_status j of
                  Processing \<Rightarrow> False
                | Completed \<Rightarrow>
                    (case processing_results g job_id of
                       None \<Rightarrow> False
                     | Some data \<Rightarrow> job_total_entries j = length data)
                | Error \<Rightarrow> processing_results g job_id = None)))"

section \<open>Properties of the partition into batches\<close>

lemma py_range_stop: "stop \<le> i \<Longrightarrow> py_range i stop step = []"
  by (subst py_range.simps) simp













section \<open>Properties of the batch extraction engine\<close>

text \<open>What one batch adds to the accumulator does not depend on the accumulator.\<close>

lemma batch_body_append:
  "batch_body w images filename all_entries i = all_entries @ batch_body w images filename [] i"
  by (simp add: batch_body_def Let_def split: option.splits json.splits)

lemma foldl_batch_body:
  "foldl (batch_body w images filename) all_entries is =
   all_entries @ concat (map (batch_body w images filename []) is)"
proof (induction "is" arbitrary: all_entries)
  case Nil
  then show ?case by simp
next
  case (Cons i "is")
  have "foldl (batch_body w images filename) all_entries (i # is) =
        foldl (batch_body w images filename) (batch_body w images filename all_entries i) is"
    by simp
  also have "\<dots> = batch_body w images filename all_entries i
                    @ concat (map (batch_body w images filename []) is)"
    by (rule Cons.IH)
  also have "\<dots> = all_entries @ concat (map (batch_body w images filename []) (i # is))"
    using batch_body_append[of w images filename all_entries i] by simp
  finally show ?case .
qed

lemma process_images_in_batches_concat:
  "process_images_in_batches w images filename =
   concat (map (batch_body w images filename []) (py_range 0 (length images) batch_size))"
  by (simp add: process_images_in_batches_def foldl_batch_body)

text \<open>
  C2. Take the batch that starts at \<open>i\<close>, with any entries \<open>all_entries\<close> accumulated
  from earlier batches of the file. If the batch's inference call raises, or its response
  fails strict parsing and the recovery finds no match or the match fails to parse, or the
  value parsed (strictly or by the recovery) is not an array, then the loop body leaves the
  accumulator exactly as it was, and the loop goes on with the remaining batches from
  that same accumulator.
\<close>

theorem failed_batch_skipped:
  assumes "messages_create w filename (i div batch_size + 1) (slice images i (i + batch_size)) = r"
    and "r = None
       \<or> (\<exists>t. r = Some t \<and> json_loads w t = None
              \<and> (re_search_array t = None
                  \<or> (\<exists>m. re_search_array t = Some m \<and> json_loads w m = None)))
       \<or> (\<exists>t v. r = Some t \<and> json_loads w t = Some v \<and> \<not> is_list v)
       \<or> (\<exists>t m v. r = Some t \<and> json_loads w t = None \<and> re_search_array t = Some m
              \<and> json_loads w m = Some v \<and> \<not> is_list v)"
  shows "batch_body w images filename all_entries i = all_entries
       \<and> foldl (batch_body w images filename) all_entries (i # rest)
           = foldl (batch_body w images filename) all_entries rest"
proof -
  have "batch_body w images filename all_entries i = all_entries"
    using assms by (cases r) (auto simp: batch_body_def Let_def split: option.splits json.splits)
  then show ?thesis by simp
qed

theorem failed_batch_skipped_witness:
  "messages_create (scenario_world scenario_b_service) ''t.docx'' (4 div batch_size + 1)
       (slice ''abcde'' 4 (4 + batch_size)) = Some ''[{\"hours\": 8.0, \"we''
   \<and> json_loads (scenario_world scenario_b_service) ''[{\"hours\": 8.0, \"we'' = None
   \<and> re_search_array ''[{\"hours\": 8.0, \"we'' = None
   \<and> batch_body (scenario_world scenario_b_service) ''abcde'' ''t.docx''
         [JObject [(''hours'', JNum 8)]] 4 = [JObject [(''hours'', JNum 8)]]
   \<and> process_images_in_batches (scenario_world scenario_b_service) ''abcde'' ''t.docx''
       = [JObject [(''hours'', JNum 8)]]"
proof -
  let ?w = "scenario_world scenario_b_service"
  have r: "messages_create ?w ''t.docx'' (4 div batch_size + 1) (slice ''abcde'' 4 (4 + batch_size))
           = Some ''[{\"hours\": 8.0, \"we''"
    by code_simp
  have l: "json_loads ?w ''[{\"hours\": 8.0, \"we'' = None"
    by code_simp
  have m: "re_search_array ''[{\"hours\": 8.0, \"we'' = None"
    by code_simp
  have first: "batch_body ?w ''abcde'' ''t.docx'' [] 0 = [JObject [(''hours'', JNum 8)]]"
    by code_simp
  have range: "py_range 0 (length ''abcde'') batch_size = [0, 4]"
    by code_simp
  have skipped: "batch_body ?w ''abcde'' ''t.docx'' [JObject [(''hours'', JNum 8)]] 4
                 = [JObject [(''hours'', JNum 8)]]"
    using failed_batch_skipped[OF r, of "[JObject [(''hours'', JNum 8)]]" "[]"] l m by simp
  have "process_images_in_batches ?w ''abcde'' ''t.docx'' = [JObject [(''hours'', JNum 8)]]"
    unfolding process_images_in_batches_def range using first skipped by simp
  then show ?thesis using r l m skipped by simp
qed

lemma re_search_array_Some:
  "re_search_array t = Some m \<longleftrightarrow>
   (\<exists>pre body post. t = pre @ CHR ''['' # body @ CHR '']'' # post
       \<and> CHR ''['' \<notin> set pre \<and> CHR '']'' \<notin> set body \<and> m = CHR ''['' # body @ '']'')"
proof
  assume a: "re_search_array t = Some m"
  let ?P = "\<lambda>c. c \<noteq> CHR ''[''" and ?Q = "\<lambda>c. c \<noteq> CHR '']''"
  from a obtain c rest where d: "dropWhile ?P t = c # rest"
    by (auto simp: re_search_array_def split: list.splits)
  with a have r: "CHR '']'' \<in> set rest" and m: "m = c # takeWhile ?Q rest @ '']''"
    by (auto simp: re_search_array_def split: if_splits)
  have c: "c = CHR ''[''"
    using d hd_dropWhile[of ?P t] by (metis list.sel(1) list.distinct(1))
  from r have "dropWhile ?Q rest \<noteq> []" by simp
  then obtain post where p: "dropWhile ?Q rest = CHR '']'' # post"
    using hd_dropWhile[of ?Q rest] by (cases "dropWhile ?Q rest") auto
  have "t = takeWhile ?P t @ dropWhile ?P t" by simp
  also have "\<dots> = takeWhile ?P t @ CHR ''['' # rest" using d c by simp
  also have "rest = takeWhile ?Q rest @ dropWhile ?Q rest" by simp
  finally have "t = takeWhile ?P t @ CHR ''['' # takeWhile ?Q rest @ CHR '']'' # post"
    using p by simp
  moreover have "CHR ''['' \<notin> set (takeWhile ?P t)"
    using set_takeWhileD by fastforce
  moreover have "CHR '']'' \<notin> set (takeWhile ?Q rest)"
    using set_takeWhileD by fastforce
  ultimately show "\<exists>pre body post. t = pre @ CHR ''['' # body @ CHR '']'' # post
       \<and> CHR ''['' \<notin> set pre \<and> CHR '']'' \<notin> set body \<and> m = CHR ''['' # body @ '']''"
    using m c by blast
next
  assume "\<exists>pre body post. t = pre @ CHR ''['' # body @ CHR '']'' # post
       \<and> CHR ''['' \<notin> set pre \<and> CHR '']'' \<notin> set body \<and> m = CHR ''['' # body @ '']''"
  then obtain pre body post where t: "t = pre @ CHR ''['' # body @ CHR '']'' # post"
    and pre: "CHR ''['' \<notin> set pre" and body: "CHR '']'' \<notin> set body"
    and m: "m = CHR ''['' # body @ '']''"
    by blast
  have d: "dropWhile (\<lambda>c. c \<noteq> CHR ''['') t = CHR ''['' # body @ CHR '']'' # post"
    unfolding t using pre by (subst dropWhile_append2) auto
  have tk: "takeWhile (\<lambda>c. c \<noteq> CHR '']'') (body @ CHR '']'' # post) = body"
    using body by (subst takeWhile_append2) auto
  show "re_search_array t = Some m"
    by (simp add: re_search_array_def d tk m)
qed

text \<open>
  C3, as the code has it. When strict parsing of a response fails, the recovery takes
  the text from the first \<open>[\<close> up to the first \<open>]\<close> after it (nothing but this shortest
  match, whether or not its brackets balance), parses that, and adds its elements if it
  is an array; with no such text, or when it does not parse, the batch adds nothing.
  For the text of Scenario D strict parsing fails and the recovery adds exactly the one
  entry.
\<close>

theorem recovery_takes_shortest_match:
  "(messages_create w filename (i div batch_size + 1) (slice images i (i + batch_size)) = Some t
      \<longrightarrow> json_loads w t = None
      \<longrightarrow> batch_body w images filename all_entries i =
          all_entries @
            (case re_search_array t of
               None \<Rightarrow> []
             | Some m \<Rightarrow> (case json_loads w m of Some (JArray batch_entries) \<Rightarrow> batch_entries | _ \<Rightarrow> [])))
   \<and> (re_search_array t = Some m \<longleftrightarrow>
        (\<exists>pre body post. t = pre @ CHR ''['' # body @ CHR '']'' # post
           \<and> CHR ''['' \<notin> set pre \<and> CHR '']'' \<notin> set body \<and> m = CHR ''['' # body @ '']''))
   \<and> loads scenario_d_text = None
   \<and> batch_body (scenario_world (\<lambda>filename batch_number batch. Some scenario_d_text))
         ''a'' ''t.docx'' [] 0
       = [JObject [(''employee_name'', JStr ''A''), (''date'', JStr ''06/09/2025''),
                   (''hours'', JNum 8), (''submission_status'', JStr ''Closed''),
                   (''week'', JStr ''W23''), (''total_hours'', JNum 40)]]"
proof (intro conjI impI)
  assume "messages_create w filename (i div batch_size + 1) (slice images i (i + batch_size)) = Some t"
    and "json_loads w t = None"
  then show "batch_body w images filename all_entries i =
          all_entries @
            (case re_search_array t of
               None \<Rightarrow> []
             | Some m \<Rightarrow> (case json_loads w m of Some (JArray batch_entries) \<Rightarrow> batch_entries | _ \<Rightarrow> []))"
    by (simp add: batch_body_def Let_def split: option.splits json.splits)
next
  show "re_search_array t = Some m \<longleftrightarrow>
        (\<exists>pre body post. t = pre @ CHR ''['' # body @ CHR '']'' # post
           \<and> CHR ''['' \<notin> set pre \<and> CHR '']'' \<notin> set body \<and> m = CHR ''['' # body @ '']'')"
    by (rule re_search_array_Some)
next
  show "loads scenario_d_text = None"
    by code_simp
next
  show "batch_body (scenario_world (\<lambda>filename batch_number batch. Some scenario_d_text))
         ''a'' ''t.docx'' [] 0
       = [JObject [(''employee_name'', JStr ''A''), (''date'', JStr ''06/09/2025''),
                   (''hours'', JNum 8), (''submission_status'', JStr ''Closed''),
                   (''week'', JStr ''W23''), (''total_hours'', JNum 40)]]"
    by code_simp
qed

theorem recovery_takes_shortest_match_witness:
  "messages_create (scenario_world (\<lambda>filename batch_number batch. Some scenario_d_text)) ''t.docx''
       (0 div batch_size + 1) (slice ''a'' 0 (0 + batch_size)) = Some scenario_d_text
   \<and> json_loads (scenario_world (\<lambda>filename batch_number batch. Some scenario_d_text)) scenario_d_text = None
   \<and> re_search_array scenario_d_text = Some ''[{\"employee_name\":\"A\",\"date\":\"06/09/2025\",\"hours\":8.0,\"submission_status\":\"Closed\",\"week\":\"W23\",\"total_hours\":40.0}]''
   \<and> batch_body (scenario_world (\<lambda>filename batch_number batch. Some scenario_d_text))
         ''a'' ''t.docx'' [JNull] 0
       = [JNull, JObject [(''employee_name'', JStr ''A''), (''date'', JStr ''06/09/2025''),
                   (''hours'', JNum 8), (''submission_status'', JStr ''Closed''),
                   (''week'', JStr ''W23''), (''total_hours'', JNum 40)]]"
proof -
  let ?w = "scenario_world (\<lambda>filename batch_number batch. Some scenario_d_text)"
  let ?m = "''[{\"employee_name\":\"A\",\"date\":\"06/09/2025\",\"hours\":8.0,\"submission_status\":\"Closed\",\"week\":\"W23\",\"total_hours\":40.0}]''"
  have r: "messages_create ?w ''t.docx'' (0 div batch_size + 1) (slice ''a'' 0 (0 + batch_size))
           = Some scenario_d_text"
    by (simp add: scenario_world_def)
  have l: "json_loads ?w scenario_d_text = None"
    by code_simp
  have s: "re_search_array scenario_d_text = Some ?m"
    by code_simp
  have p: "json_loads ?w ?m
           = Some (JArray [JObject [(''employee_name'', JStr ''A''), (''date'', JStr ''06/09/2025''),
                   (''hours'', JNum 8), (''submission_status'', JStr ''Closed''),
                   (''week'', JStr ''W23''), (''total_hours'', JNum 40)]])"
    by code_simp
  show ?thesis
    using recovery_takes_shortest_match[of ?w "''t.docx''" 0 "''a''" scenario_d_text "[JNull]" ?m]
      r l s p by simp
qed

theorem balanced_recovery_counterexample:
  "loads nested_text = None
   \<and> spec_first_balanced_array nested_text = Some ''[{\"employee_name\":\"A\",\"days\":[1,2]}]''
   \<and> loads ''[{\"employee_name\":\"A\",\"days\":[1,2]}]''
       = Some (JArray [JObject [(''employee_name'', JStr ''A''), (''days'', JArray [JNum 1, JNum 2])]])
   \<and> re_search_array nested_text = Some ''[{\"employee_name\":\"A\",\"days\":[1,2]''
   \<and> loads ''[{\"employee_name\":\"A\",\"days\":[1,2]'' = None
   \<and> batch_body (scenario_world (\<lambda>filename batch_number batch. Some nested_text))
         ''a'' ''t.docx'' [] 0 = []"
  by code_simp

section \<open>Properties of the file extraction worker\<close>

lemma for_each_raises:
  "x \<in> set xs \<Longrightarrow> f x = Inl e \<Longrightarrow> \<forall>y \<in> set xs. \<forall>e'. f y = Inl e' \<longrightarrow> e' = e \<Longrightarrow>
   for_each f xs = Inl e"
proof (induction xs)
  case Nil
  then show ?case by simp
next
  case (Cons a xs)
  show ?case
  proof (cases "f a")
    case (Inl e')
    then have "e' = e" using Cons.prems(3) by simp
    then show ?thesis using Inl by simp
  next
    case (Inr b)
    then have "x \<in> set xs" using Cons.prems(1,2) by auto
    moreover have "\<forall>y \<in> set xs. \<forall>e'. f y = Inl e' \<longrightarrow> e' = e" using Cons.prems(3) by simp
    ultimately have "for_each f xs = Inl e" using Cons.IH Cons.prems(2) by blast
    then show ?thesis using Inr by simp
  qed
qed

lemma set_source_file_raises: "set_source_file filename entry = Inl e \<Longrightarrow> e = TypeError"
  by (cases entry) simp_all

lemma set_source_file_not_dict: "\<not> is_dict entry \<Longrightarrow> set_source_file filename entry = Inl TypeError"
  by (cases entry) simp_all

lemma tagging_raises:
  assumes "entry \<in> set all_entries" "\<not> is_dict entry"
  shows "for_each (set_source_file filename) all_entries = Inl TypeError"
proof -
  have "\<forall>y \<in> set all_entries. \<forall>e'. set_source_file filename y = Inl e' \<longrightarrow> e' = TypeError"
    using set_source_file_raises by blast
  moreover have "set_source_file filename entry = Inl TypeError"
    using assms(2) by (rule set_source_file_not_dict)
  ultimately show ?thesis
    using for_each_raises[of entry all_entries "set_source_file filename" TypeError] assms(1)
    by blast
qed

lemma process_single_file_try_raises:
  assumes "extract_images_from_docx w file_content = images" "images \<noteq> []"
    and "extract_timesheet_data_with_claude w images filename = Inl e"
  shows "\<exists>e'. fst (process_single_file_try w (filename, file_content) job_id s) = Inl e'"
proof (cases "processing_status s job_id")
  case None
  then show ?thesis by (simp add: process_single_file_try_def)
next
  case (Some j)
  then show ?thesis using assms by (simp add: process_single_file_try_def Let_def)
qed

lemma process_single_file_try_raises_state:
  assumes "extract_images_from_docx w file_content = images" "images \<noteq> []"
    and "extract_timesheet_data_with_claude w images filename = Inl e"
  shows "dashboard_metrics (snd (process_single_file_try w (filename, file_content) job_id s))
     = dashboard_metrics s"
proof (cases "processing_status s job_id")
  case None
  then show ?thesis by (simp add: process_single_file_try_def)
next
  case (Some j)
  then show ?thesis using assms by (simp add: process_single_file_try_def Let_def)
qed

lemma process_single_file_cases:
  "process_single_file w file_data job_id s =
     (case fst (process_single_file_try w file_data job_id s) of
        Inl e \<Rightarrow> Inr []
      | Inr data \<Rightarrow> Inr data,
      snd (process_single_file_try w file_data job_id s))"
  by (simp add: process_single_file_def split: prod.splits sum.splits)

text \<open>
  C10. Let a document yield the images \<open>images\<close>, and let the response of one of its
  batches parse strictly to an array that holds an element that is not an object (a
  string, a number, ...). Then the tagging loop of
  \<^verbatim>\<open>extract_timesheet_data_with_claude\<close> raises \<^verbatim>\<open>TypeError\<close>, the body of the worker
  raises, and the worker's catch-all returns the empty list for the whole file: nothing
  of what the batches of this file had parsed is returned, and the image count is not
  incremented.
\<close>

theorem non_object_entry_loses_file:
  assumes "extract_images_from_docx w file_content = images"
    and "i \<in> set (py_range 0 (length images) batch_size)"
    and "messages_create w filename (i div batch_size + 1) (slice images i (i + batch_size)) = Some t"
    and "json_loads w t = Some (JArray batch_entries)"
    and "entry \<in> set batch_entries" and "\<not> is_dict entry"
  shows "entry \<in> set (process_images_in_batches w images filename)
       \<and> extract_timesheet_data_with_claude w images filename = Inl TypeError
       \<and> (\<exists>e. fst (process_single_file_try w (filename, file_content) job_id s) = Inl e)
       \<and> fst (process_single_file w (filename, file_content) job_id s) = Inr []
       \<and> dashboard_metrics (snd (process_single_file w (filename, file_content) job_id s))
           = dashboard_metrics s"
proof -
  have ne: "images \<noteq> []"
    using assms(2) by (auto simp: py_range_stop)
  have "batch_body w images filename [] i = batch_entries"
    using assms(3,4) by (simp add: batch_body_def Let_def)
  then have mem: "entry \<in> set (process_images_in_batches w images filename)"
    using assms(2,5) by (auto simp: process_images_in_batches_concat)
  then have raises: "extract_timesheet_data_with_claude w images filename = Inl TypeError"
    using ne assms(6) by (simp add: extract_timesheet_data_with_claude_def tagging_raises)
  obtain e where e: "fst (process_single_file_try w (filename, file_content) job_id s) = Inl e"
    using process_single_file_try_raises[OF assms(1) ne raises] by blast
  have "fst (process_single_file w (filename, file_content) job_id s) = Inr []"
    by (simp add: process_single_file_cases e)
  moreover have "dashboard_metrics (snd (process_single_file w (filename, file_content) job_id s))
           = dashboard_metrics s"
    using process_single_file_try_raises_state[OF assms(1) ne raises]
    by (simp add: process_single_file_cases)
  ultimately show ?thesis using mem raises e by blast
qed

theorem non_object_entry_loses_file_witness:
  "extract_images_from_docx (scenario_world stray_string_service) ''abcde'' = ''abcde''
   \<and> 4 \<in> set (py_range 0 (length ''abcde'') batch_size)
   \<and> messages_create (scenario_world stray_string_service) ''t.docx'' (4 div batch_size + 1)
         (slice ''abcde'' 4 (4 + batch_size)) = Some ''[{\"hours\": 4.0}, \"no more rows\"]''
   \<and> json_loads (scenario_world stray_string_service) ''[{\"hours\": 4.0}, \"no more rows\"]''
       = Some (JArray [JObject [(''hours'', JNum 4)], JStr ''no more rows''])
   \<and> JStr ''no more rows'' \<in> set [JObject [(''hours'', JNum 4)], JStr ''no more rows'']
   \<and> \<not> is_dict (JStr ''no more rows'')
   \<and> process_images_in_batches (scenario_world stray_string_service) ''abcde'' ''t.docx''
       = [JObject [(''hours'', JNum 8)], JObject [(''hours'', JNum 4)], JStr ''no more rows'']
   \<and> extract_timesheet_data_with_claude (scenario_world stray_string_service) ''abcde'' ''t.docx''
       = Inl TypeError
   \<and> fst (process_single_file (scenario_world stray_string_service) (''t.docx'', ''abcde'') ''job''
         (snd (process_bulk ''job'' [(''t.docx'', ''abcde'')] initial_state))) = Inr []"
proof -
  let ?w = "scenario_world stray_string_service"
  have a1: "extract_images_from_docx ?w ''abcde'' = ''abcde''"
    by (simp add: scenario_world_def)
  have a2: "4 \<in> set (py_range 0 (length ''abcde'') batch_size)"
    by code_simp
  have a3: "messages_create ?w ''t.docx'' (4 div batch_size + 1) (slice ''abcde'' 4 (4 + batch_size))
            = Some ''[{\"hours\": 4.0}, \"no more rows\"]''"
    by code_simp
  have a4: "json_loads ?w ''[{\"hours\": 4.0}, \"no more rows\"]''
            = Some (JArray [JObject [(''hours'', JNum 4)], JStr ''no more rows''])"
    by code_simp
  have a5: "JStr ''no more rows'' \<in> set [JObject [(''hours'', JNum 4)], JStr ''no more rows'']"
    by simp
  have a6: "\<not> is_dict (JStr ''no more rows'')"
    by simp
  have all: "process_images_in_batches ?w ''abcde'' ''t.docx''
       = [JObject [(''hours'', JNum 8)], JObject [(''hours'', JNum 4)], JStr ''no more rows'']"
    by code_simp
  show ?thesis
    using non_object_entry_loses_file[OF a1 a2 a3 a4 a5 a6, of "''job''"
        "snd (process_bulk ''job'' [(''t.docx'', ''abcde'')] initial_state)"]
      a1 a2 a3 a4 all by simp
qed

text \<open>
  C9. The worker never raises to the job loop: it always returns a list. When the body
  of its \<^verbatim>\<open>try\<close> raises, at whatever step, the worker returns the empty list, and the
  job loop goes on with the next file with its accumulator unchanged. For a document
  with no embedded image the worker returns the empty list and leaves the metrics as
  they were; where the job record exists and the temporary file can be written and
  removed, this is a normal return of the body, not an exception.
\<close>

theorem worker_never_raises:
  "(\<exists>data. fst (process_single_file w file_data job_id s) = Inr data)
   \<and> (\<forall>e s'. process_single_file_try w file_data job_id s = (Inl e, s') \<longrightarrow>
          process_single_file w file_data job_id s = (Inr [], s')
          \<and> files_loop w job_id (file_data # files) (all_data, s)
              = files_loop w job_id files (all_data, s'))
   \<and> (extract_images_from_docx w (snd file_data) = [] \<longrightarrow>
          fst (process_single_file w file_data job_id s) = Inr []
          \<and> dashboard_metrics (snd (process_single_file w file_data job_id s)) = dashboard_metrics s)
   \<and> (extract_images_from_docx w (snd file_data) = [] \<longrightarrow> processing_status s job_id \<noteq> None \<longrightarrow>
          write_temp w (snd file_data) \<longrightarrow> unlink w (snd file_data) \<longrightarrow>
          fst (process_single_file_try w file_data job_id s) = Inr [])"
proof (intro conjI allI impI)
  show "\<exists>data. fst (process_single_file w file_data job_id s) = Inr data"
    by (simp add: process_single_file_cases split: sum.splits)
next
  fix e s' assume a: "process_single_file_try w file_data job_id s = (Inl e, s')"
  then show "process_single_file w file_data job_id s = (Inr [], s')"
    by (simp add: process_single_file_def)
  then show "files_loop w job_id (file_data # files) (all_data, s)
              = files_loop w job_id files (all_data, s')"
    by (simp add: file_step_def)
next
  assume a: "extract_images_from_docx w (snd file_data) = []"
  obtain filename file_content where fd: "file_data = (filename, file_content)"
    by (cases file_data)
  have body: "(fst (process_single_file_try w file_data job_id s) = Inr []
              \<or> (\<exists>e. fst (process_single_file_try w file_data job_id s) = Inl e))
             \<and> dashboard_metrics (snd (process_single_file_try w file_data job_id s))
                 = dashboard_metrics s"
  proof (cases "processing_status s job_id")
    case None
    then show ?thesis by (simp add: process_single_file_try_def fd)
  next
    case (Some j)
    then show ?thesis using a by (simp add: process_single_file_try_def fd Let_def)
  qed
  then show "fst (process_single_file w file_data job_id s) = Inr []"
    by (auto simp: process_single_file_cases)
  from body show "dashboard_metrics (snd (process_single_file w file_data job_id s)) = dashboard_metrics s"
    by (simp add: process_single_file_cases)
next
  assume a: "extract_images_from_docx w (snd file_data) = []"
    and b: "processing_status s job_id \<noteq> None"
    and c: "write_temp w (snd file_data)" and d: "unlink w (snd file_data)"
  obtain filename file_content where fd: "file_data = (filename, file_content)"
    by (cases file_data)
  from b obtain j where "processing_status s job_id = Some j" by blast
  then show "fst (process_single_file_try w file_data job_id s) = Inr []"
    using a c d by (simp add: process_single_file_try_def fd Let_def)
qed

theorem worker_never_raises_witness:
  "fst (process_single_file_try (scenario_world stray_string_service) (''t.docx'', ''abcde'') ''job''
         (snd (process_bulk ''job'' [(''t.docx'', ''abcde''), (''e.docx'', [])] initial_state)))
     = Inl TypeError
   \<and> fst (process_single_file (scenario_world stray_string_service) (''t.docx'', ''abcde'') ''job''
         (snd (process_bulk ''job'' [(''t.docx'', ''abcde''), (''e.docx'', [])] initial_state)))
     = Inr []
   \<and> extract_images_from_docx (scenario_world stray_string_service) (snd (''e.docx'', [])) = []
   \<and> processing_status
         (snd (process_bulk ''job'' [(''t.docx'', ''abcde''), (''e.docx'', [])] initial_state)) ''job''
       \<noteq> None
   \<and> write_temp (scenario_world stray_string_service) (snd (''e.docx'', []))
   \<and> unlink (scenario_world stray_string_service) (snd (''e.docx'', []))
   \<and> fst (process_single_file_try (scenario_world stray_string_service) (''e.docx'', []) ''job''
         (snd (process_bulk ''job'' [(''t.docx'', ''abcde''), (''e.docx'', [])] initial_state)))
     = Inr []
   \<and> fst (process_single_file (scenario_world stray_string_service) (''e.docx'', []) ''job''
         (snd (process_bulk ''job'' [(''t.docx'', ''abcde''), (''e.docx'', [])] initial_state)))
     = Inr []"
proof -
  let ?w = "scenario_world stray_string_service"
  let ?s = "snd (process_bulk ''job'' [(''t.docx'', ''abcde''), (''e.docx'', [])] initial_state)"
  have raised: "fst (process_single_file_try ?w (''t.docx'', ''abcde'') ''job'' ?s) = Inl TypeError"
    by code_simp
  then have pair: "process_single_file_try ?w (''t.docx'', ''abcde'') ''job'' ?s
        = (Inl TypeError, snd (process_single_file_try ?w (''t.docx'', ''abcde'') ''job'' ?s))"
    by (metis prod.collapse)
  have caught: "fst (process_single_file ?w (''t.docx'', ''abcde'') ''job'' ?s) = Inr []"
    using worker_never_raises[of ?w "(''t.docx'', ''abcde'')" "''job''" ?s "[]" "[]"] pair
    by (metis fst_conv)
  have none: "extract_images_from_docx ?w (snd (''e.docx'', [])) = []"
    by (simp add: scenario_world_def)
  have job: "processing_status ?s ''job'' \<noteq> None"
    by code_simp
  have wr: "write_temp ?w (snd (''e.docx'', []))" and ul: "unlink ?w (snd (''e.docx'', []))"
    by (simp_all add: scenario_world_def)
  have empty: "fst (process_single_file_try ?w (''e.docx'', []) ''job'' ?s) = Inr []"
      "fst (process_single_file ?w (''e.docx'', []) ''job'' ?s) = Inr []"
    using worker_never_raises[of ?w "(''e.docx'', [])" "''job''" ?s "[]" "[]"] none job wr ul
    by blast+
  show ?thesis
    using raised caught none job wr ul empty by blast
qed

section \<open>What each operation does to the shared state\<close>

lemma try_results:
  "processing_results (snd (process_single_file_try w file_data job_id s)) = processing_results s"
proof (cases "processing_status s job_id")
  case None
  then show ?thesis by (simp add: process_single_file_try_def split: prod.splits)
next
  case (Some j)
  then show ?thesis
    by (simp add: process_single_file_try_def Let_def split: prod.splits sum.splits)
qed

lemma try_status:
  "processing_status (snd (process_single_file_try w file_data job_id s)) =
     (case processing_status s job_id of
        None \<Rightarrow> processing_status s
      | Some j \<Rightarrow> (processing_status s)(job_id \<mapsto>
          j\<lparr>job_current_file := fst file_data, job_processed := job_processed j + 1\<rparr>))"
proof (cases "processing_status s job_id")
  case None
  then show ?thesis by (simp add: process_single_file_try_def split: prod.splits)
next
  case (Some j)
  then show ?thesis
    by (simp add: process_single_file_try_def Let_def split: prod.splits sum.splits)
qed

lemma try_metrics:
  "total_documents (dashboard_metrics (snd (process_single_file_try w file_data job_id s)))
     = total_documents (dashboard_metrics s)
   \<and> total_entries (dashboard_metrics (snd (process_single_file_try w file_data job_id s)))
     = total_entries (dashboard_metrics s)
   \<and> total_hours (dashboard_metrics (snd (process_single_file_try w file_data job_id s)))
     = total_hours (dashboard_metrics s)"
proof (cases "processing_status s job_id")
  case None
  then show ?thesis by (simp add: process_single_file_try_def split: prod.splits)
next
  case (Some j)
  then show ?thesis
    by (simp add: process_single_file_try_def Let_def split: prod.splits sum.splits)
qed

lemma snd_process_single_file:
  "snd (process_single_file w file_data job_id s) = snd (process_single_file_try w file_data job_id s)"
  by (simp add: process_single_file_cases)

lemma snd_file_step:
  "snd (file_step w job_id file_data (all_data, s)) = snd (process_single_file_try w file_data job_id s)"
  by (simp add: file_step_def process_single_file_cases split: sum.splits)

lemma mark_error_results: "processing_results (mark_error job_id e s) = processing_results s"
  by (simp add: mark_error_def split: option.splits)

lemma mark_error_metrics: "dashboard_metrics (mark_error job_id e s) = dashboard_metrics s"
  by (simp add: mark_error_def split: option.splits)

lemma mark_error_status:
  "processing_status (mark_error job_id e s) =
     (case processing_status s job_id of
        None \<Rightarrow> processing_status s
      | Some j \<Rightarrow> (processing_status s)(job_id \<mapsto> j\<lparr>job_status := Error, job_error := Some e\<rparr>))"
  by (simp add: mark_error_def split: option.splits)

lemma finish_bulk_results:
  "processing_results (finish_bulk files job_id all_data s) =
     (case snd (sum_hours (total_hours (dashboard_metrics s)) all_data) of
        None \<Rightarrow> (processing_results s)(job_id \<mapsto> all_data)
      | Some e \<Rightarrow> processing_results s)"
  by (simp add: finish_bulk_def Let_def mark_error_results split: prod.splits option.splits)

lemma finish_bulk_status:
  "processing_status (finish_bulk files job_id all_data s) =
     (case processing_status s job_id of
        None \<Rightarrow> processing_status s
      | Some j \<Rightarrow>
          (processing_status s)(job_id \<mapsto>
            (case snd (sum_hours (total_hours (dashboard_metrics s)) all_data) of
               None \<Rightarrow> j\<lparr>job_status := Completed, job_total_entries := length all_data\<rparr>
             | Some e \<Rightarrow> j\<lparr>job_status := Error, job_error := Some e\<rparr>)))"
  by (simp add: finish_bulk_def Let_def mark_error_status split: prod.splits option.splits)

lemma finish_bulk_metrics:
  "dashboard_metrics (finish_bulk files job_id all_data s) =
     (dashboard_metrics s)
       \<lparr>total_documents := total_documents (dashboard_metrics s) + length files,
        total_entries := total_entries (dashboard_metrics s) + length all_data,
        total_hours := fst (sum_hours (total_hours (dashboard_metrics s)) all_data)\<rparr>"
  by (simp add: finish_bulk_def Let_def mark_error_metrics split: prod.splits option.splits)

lemma download_results:
  "processing_results (snd (download_result w job_id s)) =
     (case processing_results s job_id of
        None \<Rightarrow> processing_results s
      | Some data \<Rightarrow>
          if data \<noteq> [] \<and> renders w data then (processing_results s)(job_id := None)
          else processing_results s)"
  by (simp add: download_result_def renders_def Let_def split: option.splits sum.splits)

lemma download_status:
  "processing_status (snd (download_result w job_id s)) =
     (case processing_results s job_id of
        None \<Rightarrow> processing_status s
      | Some data \<Rightarrow>
          if data \<noteq> [] \<and> renders w data then (processing_status s)(job_id := None)
          else processing_status s)"
  by (auto simp: download_result_def renders_def Let_def split: option.splits sum.splits)

lemma download_metrics:
  "dashboard_metrics (snd (download_result w job_id s)) = dashboard_metrics s"
  by (simp add: download_result_def Let_def split: option.splits sum.splits)

section \<open>The invariant of the running system\<close>

lemma job_inv_cong:
  assumes "threads \<sigma>' k = threads \<sigma> k"
    and "processing_status (globals \<sigma>') k = processing_status (globals \<sigma>) k"
    and "processing_results (globals \<sigma>') k = processing_results (globals \<sigma>) k"
  shows "job_inv \<sigma>' k = job_inv \<sigma> k"
  unfolding job_inv_def Let_def assms by (rule refl)

lemma fire_work_file:
  assumes "threads \<sigma> job_id = Some t" "thread_todo t = file_data # rest"
  shows "\<exists>all_data. fire \<sigma> (Work job_id w) =
     \<sigma>\<lparr>globals := snd (process_single_file_try w file_data job_id (globals \<sigma>)),
       threads := (threads \<sigma>)(job_id \<mapsto> t\<lparr>thread_todo := rest, thread_all_data := all_data\<rparr>)\<rparr>"
proof -
  obtain all_data s' where r: "file_step w job_id file_data (thread_all_data t, globals \<sigma>) = (all_data, s')"
    by (cases "file_step w job_id file_data (thread_all_data t, globals \<sigma>)")
  then have "s' = snd (process_single_file_try w file_data job_id (globals \<sigma>))"
    using snd_file_step[of w job_id file_data "thread_all_data t" "globals \<sigma>"] by simp
  then have "fire \<sigma> (Work job_id w) =
     \<sigma>\<lparr>globals := snd (process_single_file_try w file_data job_id (globals \<sigma>)),
       threads := (threads \<sigma>)(job_id \<mapsto> t\<lparr>thread_todo := rest, thread_all_data := all_data\<rparr>)\<rparr>"
    using assms r by simp
  then show ?thesis by (rule exI)
qed

lemma fire_work_finish:
  assumes "threads \<sigma> job_id = Some t" "thread_todo t = []"
  shows "fire \<sigma> (Work job_id w) =
     \<sigma>\<lparr>globals := finish_bulk (thread_files t) job_id (thread_all_data t) (globals \<sigma>),
       threads := (threads \<sigma>)(job_id := None)\<rparr>"
  using assms by simp

lemma inv_work_file:
  assumes inv: "\<And>k. job_inv \<sigma> k"
    and t: "threads \<sigma> job_id = Some t" "thread_todo t = file_data # rest"
  shows "job_inv (fire \<sigma> (Work job_id w)) k"
proof -
  obtain all_data where f: "fire \<sigma> (Work job_id w) =
     \<sigma>\<lparr>globals := snd (process_single_file_try w file_data job_id (globals \<sigma>)),
       threads := (threads \<sigma>)(job_id \<mapsto> t\<lparr>thread_todo := rest, thread_all_data := all_data\<rparr>)\<rparr>"
    using fire_work_file[OF t] by blast
  from inv[of job_id] t obtain j where j: "processing_status (globals \<sigma>) job_id = Some j"
      "processing_results (globals \<sigma>) job_id = None" "job_status j = Processing"
      "job_total j = length (thread_files t)"
      "job_processed j + length (thread_todo t) = length (thread_files t)"
    by (auto simp: job_inv_def Let_def split: option.splits)
  show ?thesis
  proof (cases "k = job_id")
    case True
    then show ?thesis using j t unfolding f
      by (simp add: job_inv_def Let_def try_results try_status)
  next
    case False
    then have "job_inv (fire \<sigma> (Work job_id w)) k = job_inv \<sigma> k"
      unfolding f using j by (intro job_inv_cong) (simp_all add: try_results try_status)
    then show ?thesis using inv[of k] by simp
  qed
qed

lemma inv_work_finish:
  assumes inv: "\<And>k. job_inv \<sigma> k"
    and t: "threads \<sigma> job_id = Some t" "thread_todo t = []"
  shows "job_inv (fire \<sigma> (Work job_id w)) k"
proof -
  note f = fire_work_finish[OF t]
  from inv[of job_id] t obtain j where j: "processing_status (globals \<sigma>) job_id = Some j"
      "processing_results (globals \<sigma>) job_id = None" "job_status j = Processing"
      "job_total j = length (thread_files t)"
      "job_processed j = length (thread_files t)"
    by (auto simp: job_inv_def Let_def split: option.splits)
  show ?thesis
  proof (cases "k = job_id")
    case True
    then show ?thesis using j unfolding f
      by (simp add: job_inv_def Let_def finish_bulk_results finish_bulk_status split: option.splits)
  next
    case False
    then have "job_inv (fire \<sigma> (Work job_id w)) k = job_inv \<sigma> k"
      unfolding f using j
      by (intro job_inv_cong)
         (simp_all add: finish_bulk_results finish_bulk_status split: option.splits)
    then show ?thesis using inv[of k] by simp
  qed
qed

lemma inv_work:
  assumes "\<And>k. job_inv \<sigma> k"
  shows "job_inv (fire \<sigma> (Work job_id w)) k"
proof (cases "threads \<sigma> job_id")
  case None
  then show ?thesis using assms by simp
next
  case (Some t)
  show ?thesis
  proof (cases "thread_todo t")
    case Nil
    then show ?thesis using inv_work_finish[OF assms Some] by blast
  next
    case (Cons file_data rest)
    then show ?thesis using inv_work_file[OF assms Some] by blast
  qed
qed

lemma inv_submit:
  assumes inv: "\<And>k. job_inv \<sigma> k"
  shows "job_inv (fire \<sigma> (Submit job_id uploads)) k"
proof (cases "processing_status (globals \<sigma>) job_id \<noteq> None \<or> threads \<sigma> job_id \<noteq> None")
  case True
  then show ?thesis using inv[of k] by simp
next
  case fresh: False
  then have none: "processing_results (globals \<sigma>) job_id = None"
    using inv[of job_id] by (simp add: job_inv_def Let_def)
  show ?thesis
  proof (cases "fst (process_bulk job_id uploads (globals \<sigma>))")
    case (Inl rejection)
    then have "process_bulk job_id uploads (globals \<sigma>) = (Inl rejection, globals \<sigma>)"
      by (auto simp: process_bulk_def Let_def split: if_splits)
    then have "fire \<sigma> (Submit job_id uploads) = \<sigma>"
      using fresh by simp
    then show ?thesis using inv[of k] by simp
  next
    case (Inr file_data)
    then have "process_bulk job_id uploads (globals \<sigma>) =
        (Inr file_data,
         (globals \<sigma>)\<lparr>processing_status := (processing_status (globals \<sigma>))(job_id \<mapsto>
            \<lparr>job_status = Processing, job_total = length file_data, job_processed = 0,
             job_current_file = [], job_total_entries = 0, job_error = None\<rparr>)\<rparr>)"
      by (auto simp: process_bulk_def Let_def split: if_splits)
    then have f: "fire \<sigma> (Submit job_id uploads) =
        \<sigma>\<lparr>globals := (globals \<sigma>)\<lparr>processing_status := (processing_status (globals \<sigma>))(job_id \<mapsto>
            \<lparr>job_status = Processing, job_total = length file_data, job_processed = 0,
             job_current_file = [], job_total_entries = 0, job_error = None\<rparr>)\<rparr>,
          threads := (threads \<sigma>)(job_id \<mapsto>
            \<lparr>thread_files = file_data, thread_todo = file_data, thread_all_data = []\<rparr>)\<rparr>"
      using fresh by simp
    show ?thesis
    proof (cases "k = job_id")
      case True
      then show ?thesis using none unfolding f by (simp add: job_inv_def Let_def)
    next
      case False
      then have "job_inv (fire \<sigma> (Submit job_id uploads)) k = job_inv \<sigma> k"
        unfolding f by (intro job_inv_cong) simp_all
      then show ?thesis using inv[of k] by simp
    qed
  qed
qed

lemma inv_download:
  assumes inv: "\<And>k. job_inv \<sigma> k"
  shows "job_inv (fire \<sigma> (Download job_id w)) k"
proof (cases "processing_results (globals \<sigma>) job_id")
  case None
  then have "job_inv (fire \<sigma> (Download job_id w)) k = job_inv \<sigma> k"
    by (intro job_inv_cong) (simp_all add: download_results download_status)
  then show ?thesis using inv[of k] by simp
next
  case (Some data)
  show ?thesis
  proof (cases "data \<noteq> [] \<and> renders w data")
    case False
    then have "job_inv (fire \<sigma> (Download job_id w)) k = job_inv \<sigma> k"
      using Some by (intro job_inv_cong) (auto simp: download_results download_status)
    then show ?thesis using inv[of k] by simp
  next
    case True
    have no_thread: "threads \<sigma> job_id = None"
      using inv[of job_id] Some by (auto simp: job_inv_def Let_def split: option.splits)
    show ?thesis
    proof (cases "k = job_id")
      case k: True
      then show ?thesis using True Some no_thread
        by (simp add: job_inv_def Let_def download_results download_status)
    next
      case False
      then have "job_inv (fire \<sigma> (Download job_id w)) k = job_inv \<sigma> k"
        using Some True by (intro job_inv_cong) (simp_all add: download_results download_status)
      then show ?thesis using inv[of k] by simp
    qed
  qed
qed

lemma inv_fire:
  assumes "\<And>k. job_inv \<sigma> k"
  shows "job_inv (fire \<sigma> e) k"
proof (cases e)
  case (Submit job_id uploads)
  then show ?thesis using inv_submit[OF assms] by simp
next
  case (Work job_id w)
  then show ?thesis using inv_work[OF assms] by simp
next
  case (Download job_id w)
  then show ?thesis using inv_download[OF assms] by simp
qed

lemma inv_initial: "job_inv initial_system k"
  by (simp add: job_inv_def initial_system_def initial_state_def)

lemma inv_foldl:
  "\<forall>k. job_inv \<sigma> k \<Longrightarrow> \<forall>k. job_inv (foldl fire \<sigma> events) k"
proof (induction events arbitrary: \<sigma>)
  case Nil
  then show ?case by simp
next
  case (Cons e events)
  have "\<forall>k. job_inv (fire \<sigma> e) k"
    using inv_fire[of \<sigma> e] Cons.prems by blast
  then show ?case using Cons.IH[of "fire \<sigma> e"] by simp
qed

lemma inv_run: "job_inv (run events) k"
  unfolding run_def using inv_foldl[of initial_system events] inv_initial by blast

text \<open>
  The steps of a thread, run one after the other with nothing in between, are the source
  function \<^verbatim>\<open>process_files_bulk\<close>.
\<close>

lemma foldl_work:
  assumes "threads \<sigma> job_id = Some t"
  shows "globals (foldl fire \<sigma> (replicate (Suc (length (thread_todo t))) (Work job_id w)))
         = finish_bulk (thread_files t) job_id
             (fst (files_loop w job_id (thread_todo t) (thread_all_data t, globals \<sigma>)))
             (snd (files_loop w job_id (thread_todo t) (thread_all_data t, globals \<sigma>)))"
  using assms
proof (induction "thread_todo t" arbitrary: \<sigma> t)
  case Nil
  then show ?case by simp
next
  case (Cons file_data rest)
  obtain all_data s' where r: "file_step w job_id file_data (thread_all_data t, globals \<sigma>) = (all_data, s')"
    by (cases "file_step w job_id file_data (thread_all_data t, globals \<sigma>)")
  let ?t = "t\<lparr>thread_todo := rest, thread_all_data := all_data\<rparr>"
  let ?\<sigma> = "\<sigma>\<lparr>globals := s', threads := (threads \<sigma>)(job_id \<mapsto> ?t)\<rparr>"
  have f: "fire \<sigma> (Work job_id w) = ?\<sigma>"
    using Cons.prems Cons.hyps(2)[symmetric] r by simp
  have "globals (foldl fire ?\<sigma> (replicate (Suc (length (thread_todo ?t))) (Work job_id w)))
         = finish_bulk (thread_files ?t) job_id
             (fst (files_loop w job_id (thread_todo ?t) (thread_all_data ?t, globals ?\<sigma>)))
             (snd (files_loop w job_id (thread_todo ?t) (thread_all_data ?t, globals ?\<sigma>)))"
    using Cons.hyps(1)[of ?t ?\<sigma>] by simp
  then show ?case
    using f r Cons.hyps(2)[symmetric] by simp
qed

lemma thread_runs_process_files_bulk:
  assumes "threads \<sigma> job_id = Some \<lparr>thread_files = files, thread_todo = files, thread_all_data = []\<rparr>"
  shows "globals (foldl fire \<sigma> (replicate (Suc (length files)) (Work job_id w)))
         = process_files_bulk w files job_id (globals \<sigma>)"
  using foldl_work[OF assms, of w] by (simp add: process_files_bulk_def split: prod.splits)

section \<open>Properties of the job orchestrator\<close>

text \<open>
  C8. Whatever requests and thread steps have happened, a status poll that finds the
  job reports \<open>processed \<le> total\<close>. While the job's thread is alive, \<open>total\<close> is
  the number of documents accepted at submission and \<open>processed\<close> the number of those
  the loop has started.
\<close>

theorem processed_never_exceeds_total:
  "get_status job_id (globals (run events)) = Inr j \<longrightarrow>
     job_processed j \<le> job_total j
     \<and> (\<forall>t. threads (run events) job_id = Some t \<longrightarrow>
           job_total j = length (thread_files t)
           \<and> job_processed j + length (thread_todo t) = length (thread_files t))"
proof
  assume "get_status job_id (globals (run events)) = Inr j"
  then have j: "processing_status (globals (run events)) job_id = Some j"
    by (simp add: get_status_def split: option.splits)
  show "job_processed j \<le> job_total j
     \<and> (\<forall>t. threads (run events) job_id = Some t \<longrightarrow>
           job_total j = length (thread_files t)
           \<and> job_processed j + length (thread_todo t) = length (thread_files t))"
  proof (cases "threads (run events) job_id")
    case None
    then show ?thesis using inv_run[of events job_id] j
      by (simp add: job_inv_def Let_def)
  next
    case (Some t)
    then show ?thesis using inv_run[of events job_id] j
      by (simp add: job_inv_def Let_def)
  qed
qed

theorem processed_never_exceeds_total_witness:
  "get_status ''job'' (globals (run (take 2 scenario_a_run)))
     = Inr \<lparr>job_status = Processing, job_total = 2, job_processed = 1,
            job_current_file = ''a.docx'', job_total_entries = 0, job_error = None\<rparr>
   \<and> map_option (\<lambda>t. (length (thread_files t), length (thread_todo t)))
         (threads (run (take 2 scenario_a_run)) ''job'') = Some (2, 1)
   \<and> (1::nat) \<le> 2"
proof -
  let ?j = "\<lparr>job_status = Processing, job_total = 2, job_processed = 1,
            job_current_file = ''a.docx'', job_total_entries = 0, job_error = None\<rparr>"
  have poll: "get_status ''job'' (globals (run (take 2 scenario_a_run))) = Inr ?j"
    by code_simp
  have th: "map_option (\<lambda>t. (length (thread_files t), length (thread_todo t)))
         (threads (run (take 2 scenario_a_run)) ''job'') = Some (2, 1)"
    by code_simp
  have "job_processed ?j \<le> job_total ?j"
    using processed_never_exceeds_total[of "''job''" "take 2 scenario_a_run" ?j] poll by blast
  then show ?thesis using poll th by simp
qed






lemma job_result_length:
  "processing_status (globals (run events)) job_id = Some j \<Longrightarrow> job_status j = Completed \<Longrightarrow>
   \<exists>data. processing_results (globals (run events)) job_id = Some data
          \<and> job_total_entries j = length data"
  using inv_run[of events job_id]
  by (cases "threads (run events) job_id")
     (auto simp: job_inv_def Let_def split: option.splits)

lemma download_not_found:
  "processing_results s job_id = None \<Longrightarrow>
   download_result w job_id s = (Rejected 404 ''Results not found'', s)"
  by (simp add: download_result_def)





text \<open>
  C4, as the code has it. Take a job that completed with a non-empty result, between any
  two steps, and a retrieval during which the spreadsheet of that result can be built and
  saved. Then the retrieval answers with the spreadsheet of the stored entries and
  removes both the job record and the result, and a retrieval of the same id after it is
  answered 404 \<^verbatim>\<open>Results not found\<close>.
\<close>

theorem first_retrieval_removes_both:
  assumes "processing_status (globals (run events)) job_id = Some j"
    and "job_status j = Completed" and "job_total_entries j \<noteq> 0"
    and "\<forall>data. processing_results (globals (run events)) job_id = Some data \<longrightarrow> renders w data"
  shows "(\<exists>data wb. processing_results (globals (run events)) job_id = Some data
            \<and> length data = job_total_entries j \<and> create_excel_file w data = Inr wb
            \<and> fst (download_result w job_id (globals (run events))) = Spreadsheet wb)
       \<and> processing_results (snd (download_result w job_id (globals (run events)))) job_id = None
       \<and> processing_status (snd (download_result w job_id (globals (run events)))) job_id = None
       \<and> fst (download_result w' job_id (snd (download_result w job_id (globals (run events)))))
           = Rejected 404 ''Results not found''"
proof -
  let ?g = "globals (run events)"
  obtain data where data: "processing_results ?g job_id = Some data"
      "job_total_entries j = length data"
    using job_result_length[OF assms(1,2)] by blast
  then have ne: "data \<noteq> []" using assms(3) by auto
  have r: "renders w data" using assms(4) data by blast
  then obtain wb where wb: "create_excel_file w data = Inr wb" "wb_save w wb"
    by (auto simp: renders_def split: sum.splits)
  have "fst (download_result w job_id ?g) = Spreadsheet wb"
    using data ne wb assms(1) by (simp add: download_result_def Let_def)
  moreover have gone: "processing_results (snd (download_result w job_id ?g)) job_id = None"
    using data ne r by (simp add: download_results)
  moreover have "processing_status (snd (download_result w job_id ?g)) job_id = None"
    using data ne r by (simp add: download_status)
  moreover have "fst (download_result w' job_id (snd (download_result w job_id ?g)))
           = Rejected 404 ''Results not found''"
    using gone by (simp add: download_not_found)
  ultimately show ?thesis using data wb by auto
qed

theorem first_retrieval_removes_both_witness:
  "processing_status (globals (run scenario_a_run)) ''job''
     = Some \<lparr>job_status = Completed, job_total = 2, job_processed = 2,
             job_current_file = ''b.DOC'', job_total_entries = 2, job_error = None\<rparr>
   \<and> (2::nat) \<noteq> 0
   \<and> renders (scenario_world one_entry_service)
        [JObject [(''employee_name'', JStr ''A''), (''hours'', JNum 8),
                  (''submission_status'', JStr ''Closed''), (''source_file'', JStr ''a.docx'')],
         JObject [(''employee_name'', JStr ''A''), (''hours'', JNum 8),
                  (''submission_status'', JStr ''Closed''), (''source_file'', JStr ''b.DOC'')]]
   \<and> processing_results (globals (run scenario_a_run)) ''job''
     = Some [JObject [(''employee_name'', JStr ''A''), (''hours'', JNum 8),
                  (''submission_status'', JStr ''Closed''), (''source_file'', JStr ''a.docx'')],
         JObject [(''employee_name'', JStr ''A''), (''hours'', JNum 8),
                  (''submission_status'', JStr ''Closed''), (''source_file'', JStr ''b.DOC'')]]
   \<and> processing_results (snd (download_result (scenario_world one_entry_service) ''job''
         (globals (run scenario_a_run)))) ''job'' = None
   \<and> processing_status (snd (download_result (scenario_world one_entry_service) ''job''
         (globals (run scenario_a_run)))) ''job'' = None
   \<and> fst (download_result (scenario_world one_entry_service) ''job''
         (snd (download_result (scenario_world one_entry_service) ''job''
            (globals (run scenario_a_run)))))
       = Rejected 404 ''Results not found''"
proof -
  let ?w = "scenario_world one_entry_service"
  let ?j = "\<lparr>job_status = Completed, job_total = 2, job_processed = 2,
             job_current_file = ''b.DOC'', job_total_entries = 2, job_error = None\<rparr>"
  let ?d = "[JObject [(''employee_name'', JStr ''A''), (''hours'', JNum 8),
                  (''submission_status'', JStr ''Closed''), (''source_file'', JStr ''a.docx'')],
         JObject [(''employee_name'', JStr ''A''), (''hours'', JNum 8),
                  (''submission_status'', JStr ''Closed''), (''source_file'', JStr ''b.DOC'')]]"
  have j: "processing_status (globals (run scenario_a_run)) ''job'' = Some ?j"
    by code_simp
  have d: "processing_results (globals (run scenario_a_run)) ''job'' = Some ?d"
    by code_simp
  have r: "renders ?w ?d"
    by code_simp
  have c: "job_status ?j = Completed" and n: "job_total_entries ?j \<noteq> 0"
    by simp_all
  have h: "\<forall>data. processing_results (globals (run scenario_a_run)) ''job'' = Some data
             \<longrightarrow> renders ?w data"
    using d r by simp
  show ?thesis
    using first_retrieval_removes_both[OF j c n h, of ?w] j d r by simp
qed

theorem unrenderable_result_counterexample:
  "processing_status (globals (run null_status_run)) ''job''
     = Some \<lparr>job_status = Completed, job_total = 1, job_processed = 1,
             job_current_file = ''t.docx'', job_total_entries = 1, job_error = None\<rparr>
   \<and> processing_results (globals (run null_status_run)) ''job''
     = Some [JObject [(''hours'', JNum 8), (''submission_status'', JNull),
                      (''source_file'', JStr ''t.docx'')]]
   \<and> fst (download_result (scenario_world null_status_service) ''job''
           (globals (run null_status_run))) = ServerError AttributeError
   \<and> processing_results (snd (download_result (scenario_world null_status_service) ''job''
           (globals (run null_status_run)))) ''job'' \<noteq> None
   \<and> processing_status (snd (download_result (scenario_world null_status_service) ''job''
           (globals (run null_status_run)))) ''job'' \<noteq> None
   \<and> fst (download_result (scenario_world null_status_service) ''job''
           (snd (download_result (scenario_world null_status_service) ''job''
              (globals (run null_status_run))))) = ServerError AttributeError"
  by code_simp

lemma try_total_images:
  "total_images (dashboard_metrics (snd (process_single_file_try w (filename, file_content) job_id s)))
     = total_images (dashboard_metrics s)
       + (if processing_status s job_id \<noteq> None \<and> write_temp w file_content
             \<and> (\<exists>data. extract_timesheet_data_with_claude w
                           (extract_images_from_docx w file_content) filename = Inr data)
          then length (extract_images_from_docx w file_content) else 0)"
proof (cases "processing_status s job_id")
  case None
  then show ?thesis by (simp add: process_single_file_try_def)
next
  case (Some j)
  then show ?thesis
    by (cases "extract_timesheet_data_with_claude w (extract_images_from_docx w file_content) filename")
       (simp_all add: process_single_file_try_def Let_def)
qed

lemma process_bulk_metrics:
  "dashboard_metrics (snd (process_bulk job_id uploads s)) = dashboard_metrics s"
  by (simp add: process_bulk_def Let_def)

lemma fire_keeps_metrics:
  assumes "\<And>job_id w t. e = Work job_id w \<Longrightarrow> threads \<sigma> job_id = Some t \<Longrightarrow> thread_todo t \<noteq> []"
  shows "total_documents (dashboard_metrics (globals (fire \<sigma> e)))
           = total_documents (dashboard_metrics (globals \<sigma>))
       \<and> total_entries (dashboard_metrics (globals (fire \<sigma> e)))
           = total_entries (dashboard_metrics (globals \<sigma>))
       \<and> total_hours (dashboard_metrics (globals (fire \<sigma> e)))
           = total_hours (dashboard_metrics (globals \<sigma>))"
proof (cases e)
  case (Submit job_id uploads)
  have "dashboard_metrics (globals (fire \<sigma> (Submit job_id uploads))) = dashboard_metrics (globals \<sigma>)"
    using process_bulk_metrics[of job_id uploads "globals \<sigma>"]
    by (cases "process_bulk job_id uploads (globals \<sigma>)") (auto split: sum.splits)
  then show ?thesis using Submit by simp
next
  case (Download job_id w)
  then show ?thesis by (simp add: download_metrics)
next
  case (Work job_id w)
  show ?thesis
  proof (cases "threads \<sigma> job_id")
    case None
    then show ?thesis using Work by simp
  next
    case (Some t)
    then obtain file_data rest where todo: "thread_todo t = file_data # rest"
      using assms[OF Work Some] by (cases "thread_todo t") auto
    obtain all_data where "fire \<sigma> (Work job_id w) =
       \<sigma>\<lparr>globals := snd (process_single_file_try w file_data job_id (globals \<sigma>)),
         threads := (threads \<sigma>)(job_id \<mapsto> t\<lparr>thread_todo := rest, thread_all_data := all_data\<rparr>)\<rparr>"
      using fire_work_file[OF Some todo] by blast
    then show ?thesis using Work try_metrics[of w file_data job_id "globals \<sigma>"] by simp
  qed
qed

text \<open>
  C6, as the code has it. Documents processed, entries found and hours sum are changed
  by one step only, the code that a job's thread runs after its file loop, after which
  the thread has ended. When that code takes a processing job to completed, it has added
  the number of files to the documents, the number of entries to the entries and the
  entries' hours to the hours sum, stored the result, and left the image count alone.
  The image count is incremented by the file worker instead, file by file while the job
  is processing: by the number of images of a file whose extraction returned. What a job
  that ends in error leaves in the metrics is not part of this statement.
\<close>

theorem metrics_updated_by_completion:
  "(processing_status s job_id = Some j \<longrightarrow> job_status j = Processing \<longrightarrow>
      processing_status (finish_bulk files job_id all_data s) job_id = Some j' \<longrightarrow>
      job_status j' = Completed \<longrightarrow>
        total_documents (dashboard_metrics (finish_bulk files job_id all_data s))
          = total_documents (dashboard_metrics s) + length files
        \<and> total_entries (dashboard_metrics (finish_bulk files job_id all_data s))
          = total_entries (dashboard_metrics s) + length all_data
        \<and> sum_hours (total_hours (dashboard_metrics s)) all_data
          = (total_hours (dashboard_metrics (finish_bulk files job_id all_data s)), None)
        \<and> total_images (dashboard_metrics (finish_bulk files job_id all_data s))
          = total_images (dashboard_metrics s)
        \<and> processing_results (finish_bulk files job_id all_data s) job_id = Some all_data
        \<and> job_total_entries j' = length all_data)
   \<and> (total_documents (dashboard_metrics (snd (process_single_file w (filename, file_content) job_id s)))
          = total_documents (dashboard_metrics s)
        \<and> total_entries (dashboard_metrics (snd (process_single_file w (filename, file_content) job_id s)))
          = total_entries (dashboard_metrics s)
        \<and> total_hours (dashboard_metrics (snd (process_single_file w (filename, file_content) job_id s)))
          = total_hours (dashboard_metrics s)
        \<and> total_images (dashboard_metrics (snd (process_single_file w (filename, file_content) job_id s)))
          = total_images (dashboard_metrics s)
            + (if processing_status s job_id \<noteq> None \<and> write_temp w file_content
                  \<and> (\<exists>data. extract_timesheet_data_with_claude w
                                (extract_images_from_docx w file_content) filename = Inr data)
               then length (extract_images_from_docx w file_content) else 0))
   \<and> ((total_documents (dashboard_metrics (globals (fire \<sigma> e))),
        total_entries (dashboard_metrics (globals (fire \<sigma> e))),
        total_hours (dashboard_metrics (globals (fire \<sigma> e))))
       \<noteq> (total_documents (dashboard_metrics (globals \<sigma>)),
          total_entries (dashboard_metrics (globals \<sigma>)),
          total_hours (dashboard_metrics (globals \<sigma>))) \<longrightarrow>
       (\<exists>job_id w t. e = Work job_id w \<and> threads \<sigma> job_id = Some t \<and> thread_todo t = []
           \<and> threads (fire \<sigma> e) job_id = None))"
proof (intro conjI impI)
  assume j: "processing_status s job_id = Some j" "job_status j = Processing"
    and j': "processing_status (finish_bulk files job_id all_data s) job_id = Some j'"
      "job_status j' = Completed"
  have ok: "snd (sum_hours (total_hours (dashboard_metrics s)) all_data) = None"
    using j j' by (auto simp: finish_bulk_status split: option.splits)
  show "total_documents (dashboard_metrics (finish_bulk files job_id all_data s))
          = total_documents (dashboard_metrics s) + length files"
    by (simp add: finish_bulk_metrics)
  show "total_entries (dashboard_metrics (finish_bulk files job_id all_data s))
          = total_entries (dashboard_metrics s) + length all_data"
    by (simp add: finish_bulk_metrics)
  show "sum_hours (total_hours (dashboard_metrics s)) all_data
          = (total_hours (dashboard_metrics (finish_bulk files job_id all_data s)), None)"
    using ok by (simp add: finish_bulk_metrics prod_eq_iff)
  show "total_images (dashboard_metrics (finish_bulk files job_id all_data s))
          = total_images (dashboard_metrics s)"
    by (simp add: finish_bulk_metrics)
  show "processing_results (finish_bulk files job_id all_data s) job_id = Some all_data"
    using ok by (simp add: finish_bulk_results)
  show "job_total_entries j' = length all_data"
    using j j' ok by (auto simp: finish_bulk_status)
next
  show "total_documents (dashboard_metrics (snd (process_single_file w (filename, file_content) job_id s)))
          = total_documents (dashboard_metrics s)"
    by (simp add: snd_process_single_file try_metrics)
  show "total_entries (dashboard_metrics (snd (process_single_file w (filename, file_content) job_id s)))
          = total_entries (dashboard_metrics s)"
    by (simp add: snd_process_single_file try_metrics)
  show "total_hours (dashboard_metrics (snd (process_single_file w (filename, file_content) job_id s)))
          = total_hours (dashboard_metrics s)"
    by (simp add: snd_process_single_file try_metrics)
  show "total_images (dashboard_metrics (snd (process_single_file w (filename, file_content) job_id s)))
          = total_images (dashboard_metrics s)
            + (if processing_status s job_id \<noteq> None \<and> write_temp w file_content
                  \<and> (\<exists>data. extract_timesheet_data_with_claude w
                                (extract_images_from_docx w file_content) filename = Inr data)
               then length (extract_images_from_docx w file_content) else 0)"
    unfolding snd_process_single_file by (rule try_total_images)
next
  assume changed: "(total_documents (dashboard_metrics (globals (fire \<sigma> e))),
        total_entries (dashboard_metrics (globals (fire \<sigma> e))),
        total_hours (dashboard_metrics (globals (fire \<sigma> e))))
       \<noteq> (total_documents (dashboard_metrics (globals \<sigma>)),
          total_entries (dashboard_metrics (globals \<sigma>)),
          total_hours (dashboard_metrics (globals \<sigma>)))"
  have "\<not> (\<forall>job_id w t. e = Work job_id w \<longrightarrow> threads \<sigma> job_id = Some t \<longrightarrow> thread_todo t \<noteq> [])"
    using fire_keeps_metrics[of e \<sigma>] changed by auto
  then obtain job_id w t where f: "e = Work job_id w" "threads \<sigma> job_id = Some t" "thread_todo t = []"
    by blast
  then have "threads (fire \<sigma> e) job_id = None"
    by simp
  then show "\<exists>job_id w t. e = Work job_id w \<and> threads \<sigma> job_id = Some t \<and> thread_todo t = []
           \<and> threads (fire \<sigma> e) job_id = None"
    using f by blast
qed

theorem metrics_updated_by_completion_witness:
  "processing_status (globals (run (take 3 scenario_a_run))) ''job''
     = Some \<lparr>job_status = Processing, job_total = 2, job_processed = 2,
             job_current_file = ''b.DOC'', job_total_entries = 0, job_error = None\<rparr>
   \<and> processing_status
        (finish_bulk [(''a.docx'', ''x''), (''b.DOC'', ''z'')] ''job''
           [JObject [(''hours'', JNum 8)], JObject [(''hours'', JNum (5 / 2))]]
           (globals (run (take 3 scenario_a_run)))) ''job''
     = Some \<lparr>job_status = Completed, job_total = 2, job_processed = 2,
             job_current_file = ''b.DOC'', job_total_entries = 2, job_error = None\<rparr>
   \<and> dashboard_metrics (globals (run (take 3 scenario_a_run)))
     = \<lparr>total_documents = 0, total_hours = 0, total_entries = 0, total_images = 2\<rparr>
   \<and> total_documents (dashboard_metrics
        (finish_bulk [(''a.docx'', ''x''), (''b.DOC'', ''z'')] ''job''
           [JObject [(''hours'', JNum 8)], JObject [(''hours'', JNum (5 / 2))]]
           (globals (run (take 3 scenario_a_run))))) = 0 + 2
   \<and> total_hours (dashboard_metrics
        (finish_bulk [(''a.docx'', ''x''), (''b.DOC'', ''z'')] ''job''
           [JObject [(''hours'', JNum 8)], JObject [(''hours'', JNum (5 / 2))]]
           (globals (run (take 3 scenario_a_run))))) = 21 / 2
   \<and> total_documents (dashboard_metrics (globals
          (fire (run (take 3 scenario_a_run)) (Work ''job'' (scenario_world one_entry_service)))))
       \<noteq> total_documents (dashboard_metrics (globals (run (take 3 scenario_a_run))))
   \<and> threads (fire (run (take 3 scenario_a_run)) (Work ''job'' (scenario_world one_entry_service)))
         ''job'' = None"
proof -
  let ?w = "scenario_world one_entry_service"
  let ?\<sigma> = "run (take 3 scenario_a_run) :: system"
  let ?s = "globals ?\<sigma>"
  let ?F = "[(''a.docx'', ''x''), (''b.DOC'', ''z'')]"
  let ?D = "[JObject [(''hours'', JNum 8)], JObject [(''hours'', JNum (5 / 2))]]"
  let ?p = "\<lparr>job_status = Processing, job_total = 2, job_processed = 2,
             job_current_file = ''b.DOC'', job_total_entries = 0, job_error = None\<rparr>"
  let ?c = "\<lparr>job_status = Completed, job_total = 2, job_processed = 2,
             job_current_file = ''b.DOC'', job_total_entries = 2, job_error = None\<rparr>"
  have p: "processing_status ?s ''job'' = Some ?p"
    by code_simp
  have c: "processing_status (finish_bulk ?F ''job'' ?D ?s) ''job'' = Some ?c"
    by code_simp
  have m: "dashboard_metrics ?s
     = \<lparr>total_documents = 0, total_hours = 0, total_entries = 0, total_images = 2\<rparr>"
    by code_simp
  have h: "sum_hours 0 ?D = (21 / 2, None)"
    by code_simp
  have changed: "total_documents (dashboard_metrics (globals (fire ?\<sigma> (Work ''job'' ?w))))
       \<noteq> total_documents (dashboard_metrics ?s)"
    by code_simp
  note inst = metrics_updated_by_completion[of ?s "''job''" ?p ?F ?D ?c ?w "''a.docx''" "''x''"
      ?\<sigma> "Work ''job'' ?w"]
  have docs: "total_documents (dashboard_metrics (finish_bulk ?F ''job'' ?D ?s)) = 0 + 2"
    using inst p c m by simp
  have hours: "total_hours (dashboard_metrics (finish_bulk ?F ''job'' ?D ?s)) = 21 / 2"
    using inst p c m h by simp
  have ended: "threads (fire ?\<sigma> (Work ''job'' ?w)) ''job'' = None"
    using inst changed by auto
  show ?thesis
    using p c m docs hours changed ended by blast
qed

theorem error_job_metrics_counterexample:
  "processing_status (globals (run error_run)) ''job''
     = Some \<lparr>job_status = Error, job_total = 1, job_processed = 1,
             job_current_file = ''t.docx'', job_total_entries = 0, job_error = Some TypeError\<rparr>
   \<and> dashboard_metrics (globals (run (take 1 error_run)))
     = \<lparr>total_documents = 0, total_hours = 0, total_entries = 0, total_images = 0\<rparr>
   \<and> dashboard_metrics (globals (run error_run))
     = \<lparr>total_documents = 1, total_hours = 0, total_entries = 1, total_images = 1\<rparr>
   \<and> processing_status (globals (run (take 2 scenario_a_run))) ''job''
     = Some \<lparr>job_status = Processing, job_total = 2, job_processed = 1,
             job_current_file = ''a.docx'', job_total_entries = 0, job_error = None\<rparr>
   \<and> dashboard_metrics (globals (run (take 2 scenario_a_run)))
     = \<lparr>total_documents = 0, total_hours = 0, total_entries = 0, total_images = 1\<rparr>"
  by code_simp

end
